theory Spec2Isabelle
  imports
    Complex_Main
    "HOL-Library.Sublist"
    "HOL-Library.List_Lexorder"
    "HOL-Library.Char_ord"
begin

section \<open>JavaScript strings\<close>

text \<open>
  A JavaScript string is modelled as a \<^typ>\<open>string\<close>, one \<^typ>\<open>char\<close> per code unit: the
  model covers the strings whose code units are below 256 (Latin-1). There
  \<open>toLowerCase\<close> adds 32 to the code units of \<open>A\<close>..\<open>Z\<close> and to those of the upper-case
  letters \<open>0xC0\<close>..\<open>0xDE\<close>, but for the multiplication sign \<open>0xD7\<close>, and leaves every other
  code unit alone. The character classes of the two regular expressions of the parser
  (\<open>[1-9A-HJ-NP-Za-km-z]\<close> and \<open>\d\<close>) are ranges of code units.
\<close>

definition lower_char :: "char \<Rightarrow> char" where
  "lower_char c =
     (if (CHR ''A'' \<le> c \<and> c \<le> CHR ''Z'') \<or> (CHR 0xC0 \<le> c \<and> c \<le> CHR 0xDE \<and> c \<noteq> CHR 0xD7)
      then char_of (of_char c + (32::nat)) else c)"

definition toLowerCase :: "string \<Rightarrow> string" where
  "toLowerCase s = map lower_char s"

text \<open>\<open>s.includes(t)\<close>: \<open>t\<close> occurs in \<open>s\<close> as a contiguous substring.\<close>

fun str_includes :: "string \<Rightarrow> string \<Rightarrow> bool" where
  "str_includes [] t = (t = [])"
| "str_includes (c # cs) t = (prefix t (c # cs) \<or> str_includes cs t)"

text \<open>
  \<open>!x\<close> for \<open>x : string | undefined\<close>: \<open>undefined\<close> and the empty string are falsy.
\<close>

fun falsy :: "string option \<Rightarrow> bool" where
  "falsy None = True"
| "falsy (Some s) = (s = [])"

text \<open>\<open>xs[i]\<close> on an array: \<open>undefined\<close> out of range.\<close>

definition at_index :: "'a list \<Rightarrow> nat \<Rightarrow> 'a option" where
  "at_index xs i = (if i < length xs then Some (xs ! i) else None)"

text \<open>\<open>s.slice(0, 4)\<close> and \<open>s.slice(-4)\<close>.\<close>

definition slice_first4 :: "string \<Rightarrow> string" where
  "slice_first4 s = take 4 s"

definition slice_last4 :: "string \<Rightarrow> string" where
  "slice_last4 s = drop (length s - 4) s"

text \<open>\<open>parts.join(sep)\<close>.\<close>

fun join :: "string \<Rightarrow> string list \<Rightarrow> string" where
  "join sep [] = []"
| "join sep [x] = x"
| "join sep (x # y # ys) = x @ sep @ join sep (y # ys)"


section \<open>The query builders (\<open>src/lib/allium.ts\<close>)\<close>

text \<open>
  Each builder collects its conditions in an array, pushes the protocol condition when
  \<open>protocol\<close> is truthy, and interpolates the conditions, joined by \<open>" AND "\<close>, into a
  fixed template literal.
\<close>

definition select_from :: string where
  "select_from =
    ''\<newline>    SELECT\<newline>      date,\<newline>      address,\<newline>      project,\<newline>      protocol,\<newline>      symbol,\<newline>      balance,\<newline>      usd_balance,\<newline>      usd_exchange_rate,\<newline>      lending_id,\<newline>      mint,\<newline>      token_name\<newline>    FROM solana.lending.position_holdings_daily\<newline>    WHERE ''"

definition protocol_condition :: "string option \<Rightarrow> string list" where
  "protocol_condition protocol =
     (case protocol of
        None \<Rightarrow> []
      | Some p \<Rightarrow> if p = [] then [] else [''project = '' @ [CHR 0x27] @ toLowerCase p @ [CHR 0x27]])"

definition buildPositionQuery :: "string \<Rightarrow> string \<Rightarrow> string option \<Rightarrow> string" where
  "buildPositionQuery address date protocol =
     (let conditions =
            [''address = '' @ [CHR 0x27] @ address @ [CHR 0x27],
             ''date = '' @ [CHR 0x27] @ date @ [CHR 0x27],
             ''balance > 0''] @ protocol_condition protocol
      in select_from @ join '' AND '' conditions
           @ ''\<newline>    ORDER BY usd_balance DESC\<newline>    LIMIT 50\<newline>  '')"

definition buildPositionRangeQuery ::
  "string \<Rightarrow> string \<Rightarrow> string \<Rightarrow> string option \<Rightarrow> string" where
  "buildPositionRangeQuery address startDate endDate protocol =
     (let conditions =
            [''address = '' @ [CHR 0x27] @ address @ [CHR 0x27],
             ''date >= '' @ [CHR 0x27] @ startDate @ [CHR 0x27],
             ''date <= '' @ [CHR 0x27] @ endDate @ [CHR 0x27],
             ''balance > 0''] @ protocol_condition protocol
      in select_from @ join '' AND '' conditions
           @ ''\<newline>    ORDER BY date ASC, usd_balance DESC\<newline>    LIMIT 500\<newline>  '')"

definition buildComparisonQuery ::
  "string \<Rightarrow> string \<Rightarrow> string \<Rightarrow> string option \<Rightarrow> string" where
  "buildComparisonQuery address date1 date2 protocol =
     (let conditions =
            [''address = '' @ [CHR 0x27] @ address @ [CHR 0x27],
             ''date IN ('' @ [CHR 0x27] @ date1 @ [CHR 0x27] @ '', '' @ [CHR 0x27] @ date2
               @ [CHR 0x27] @ '')'',
             ''balance > 0''] @ protocol_condition protocol
      in select_from @ join '' AND '' conditions
           @ ''\<newline>    ORDER BY date ASC, usd_balance DESC\<newline>    LIMIT 100\<newline>  '')"


section \<open>Numbers\<close>

text \<open>
  A JavaScript number is an IEEE 754 double: a finite value (a real number here, with the
  negative zero as a value of its own), an infinity or NaN. An arithmetic operation takes
  the exact result and rounds it to the nearest double, to the even one of two.
\<close>

datatype number = NaN | PosInf | NegInf | NegZero | Fin real

definition pow2 :: "int \<Rightarrow> real" where
  "pow2 q = (if 0 \<le> q then 2 ^ nat q else 1 / 2 ^ nat (- q))"

text \<open>\<open>\<lfloor>log\<^sub>2 n\<rfloor>\<close> for \<open>n \<ge> 1\<close>.\<close>

function floor_log2 :: "nat \<Rightarrow> nat" where
  "floor_log2 n = (if n < 2 then 0 else Suc (floor_log2 (n div 2)))"
  by pat_completeness auto
termination
  by (relation "measure id") auto

declare floor_log2.simps [simp del]

text \<open>The binary exponent of \<open>a > 0\<close>: the \<open>e\<close> with \<open>2\<^sup>e \<le> a < 2\<^sup>e\<^sup>+\<^sup>1\<close>.\<close>

definition exponent :: "real \<Rightarrow> int" where
  "exponent a =
     (if 1 \<le> a then int (floor_log2 (nat \<lfloor>a\<rfloor>))
      else - int (Suc (floor_log2 (nat \<lceil>1 / a\<rceil> - 1))))"

text \<open>The nearest integer, the even one of two.\<close>

definition round_even :: "real \<Rightarrow> int" where
  "round_even x =
     (let n = \<lfloor>x\<rfloor>; d = x - of_int n
      in if d < 1 / 2 then n else if 1 / 2 < d then n + 1 else if even n then n else n + 1)"

text \<open>
  Rounding a real to a double: 53 significant bits, the least exponent \<open>-1074\<close>
  (subnormal numbers below \<open>2\<^sup>-\<^sup>1\<^sup>0\<^sup>2\<^sup>2\<close>), overflow to an infinity from \<open>2\<^sup>1\<^sup>0\<^sup>2\<^sup>4\<close> on, and a
  zero of the sign of the exact value on underflow.
\<close>

definition rnd :: "real \<Rightarrow> number" where
  "rnd r =
     (if r = 0 then Fin 0
      else
        let a = \<bar>r\<bar>;
            q = max (exponent a - 52) (- 1074);
            v = of_int (round_even (a / pow2 q)) * pow2 q
        in if 2 ^ 1024 \<le> v then (if r < 0 then NegInf else PosInf)
           else if v = 0 then (if r < 0 then NegZero else Fin 0)
           else Fin (if r < 0 then - v else v))"

text \<open>The sign bit, and the zeros.\<close>

fun negative :: "number \<Rightarrow> bool" where
  "negative NegInf = True"
| "negative NegZero = True"
| "negative (Fin r) = (r < 0)"
| "negative _ = False"

fun is_zero :: "number \<Rightarrow> bool" where
  "is_zero NegZero = True"
| "is_zero (Fin r) = (r = 0)"
| "is_zero _ = False"

fun is_infinite :: "number \<Rightarrow> bool" where
  "is_infinite PosInf = True"
| "is_infinite NegInf = True"
| "is_infinite _ = False"

text \<open>The real value of a finite number.\<close>

fun val :: "number \<Rightarrow> real" where
  "val (Fin r) = r"
| "val _ = 0"

definition signed_zero :: "bool \<Rightarrow> number" where
  "signed_zero neg = (if neg then NegZero else Fin 0)"

definition signed_infinity :: "bool \<Rightarrow> number" where
  "signed_infinity neg = (if neg then NegInf else PosInf)"

text \<open>
  The order: NaN compares false with everything, the two zeros are equal, the infinities
  are the least and the greatest number.
\<close>

fun order_key :: "number \<Rightarrow> int \<times> real" where
  "order_key NegInf = (- 1, 0)"
| "order_key PosInf = (1, 0)"
| "order_key x = (0, val x)"

definition num_neg :: "number \<Rightarrow> number" where
  "num_neg x =
     (case x of NaN \<Rightarrow> NaN | PosInf \<Rightarrow> NegInf | NegInf \<Rightarrow> PosInf | NegZero \<Rightarrow> Fin 0
      | Fin r \<Rightarrow> if r = 0 then NegZero else Fin (- r))"

definition num_add :: "number \<Rightarrow> number \<Rightarrow> number" where
  "num_add x y =
     (if x = NaN \<or> y = NaN then NaN
      else if is_infinite x \<and> is_infinite y then (if x = y then x else NaN)
      else if is_infinite x then x
      else if is_infinite y then y
      else if is_zero x \<and> is_zero y then signed_zero (negative x \<and> negative y)
      else if is_zero x then y
      else if is_zero y then x
      else rnd (val x + val y))"

definition num_sub :: "number \<Rightarrow> number \<Rightarrow> number" where
  "num_sub x y = num_add x (num_neg y)"

definition num_mul :: "number \<Rightarrow> number \<Rightarrow> number" where
  "num_mul x y =
     (if x = NaN \<or> y = NaN then NaN
      else if (is_infinite x \<and> is_zero y) \<or> (is_zero x \<and> is_infinite y) then NaN
      else if is_infinite x \<or> is_infinite y then signed_infinity (negative x \<noteq> negative y)
      else if is_zero x \<or> is_zero y then signed_zero (negative x \<noteq> negative y)
      else rnd (val x * val y))"

definition num_div :: "number \<Rightarrow> number \<Rightarrow> number" where
  "num_div x y =
     (if x = NaN \<or> y = NaN then NaN
      else if (is_infinite x \<and> is_infinite y) \<or> (is_zero x \<and> is_zero y) then NaN
      else if is_infinite x \<or> is_zero y then signed_infinity (negative x \<noteq> negative y)
      else if is_infinite y \<or> is_zero x then signed_zero (negative x \<noteq> negative y)
      else rnd (val x / val y))"

definition num_less :: "number \<Rightarrow> number \<Rightarrow> bool" where
  "num_less x y =
     (x \<noteq> NaN \<and> y \<noteq> NaN
      \<and> (fst (order_key x) < fst (order_key y)
         \<or> (fst (order_key x) = fst (order_key y) \<and> snd (order_key x) < snd (order_key y))))"

definition num_le :: "number \<Rightarrow> number \<Rightarrow> bool" where
  "num_le x y = (x \<noteq> NaN \<and> y \<noteq> NaN \<and> (num_less x y \<or> order_key x = order_key y))"

text \<open>The operators \<open>+\<close>, \<open>-\<close>, \<open>*\<close>, \<open>/\<close>, \<open><\<close> and \<open>\<le>\<close> on numbers are these operations.\<close>

instantiation number :: "{zero, plus, uminus, minus, times, inverse, ord}"
begin

definition zero_number :: number where
  "zero_number = Fin 0"

definition uminus_number :: "number \<Rightarrow> number" where
  "uminus_number = num_neg"

definition plus_number :: "number \<Rightarrow> number \<Rightarrow> number" where
  "plus_number = num_add"

definition minus_number :: "number \<Rightarrow> number \<Rightarrow> number" where
  "minus_number = num_sub"

definition times_number :: "number \<Rightarrow> number \<Rightarrow> number" where
  "times_number = num_mul"

definition divide_number :: "number \<Rightarrow> number \<Rightarrow> number" where
  "divide_number = num_div"

definition inverse_number :: "number \<Rightarrow> number" where
  "inverse_number = num_div (Fin 1)"

definition less_number :: "number \<Rightarrow> number \<Rightarrow> bool" where
  "less_number = num_less"

definition less_eq_number :: "number \<Rightarrow> number \<Rightarrow> bool" where
  "less_eq_number = num_le"

instance ..

end


section \<open>\<open>Number.prototype.toFixed\<close>\<close>

definition digit_char :: "nat \<Rightarrow> char" where
  "digit_char d = ''0123456789'' ! d"

function decimal :: "nat \<Rightarrow> string" where
  "decimal n = (if n < 10 then [digit_char n] else decimal (n div 10) @ [digit_char (n mod 10)])"
  by pat_completeness auto
termination
  by (relation "measure id") auto

declare decimal.simps [simp del]

text \<open>
  The fixed notation of a real \<open>x\<close> with \<open>f\<close> decimals, as \<open>toFixed\<close> builds it: the sign is
  taken off first, \<open>n\<close> is the integer nearest to \<open>x * 10\<^sup>f\<close> (the larger one of two), its
  decimal digits are padded with zeros to \<open>f + 1\<close> digits and the point is put before the
  last \<open>f\<close> digits.
\<close>

definition fixed_notation :: "nat \<Rightarrow> real \<Rightarrow> string" where
  "fixed_notation f x =
     (let s = (if x < 0 then ''-'' else []);
          n = nat \<lfloor>\<bar>x\<bar> * 10 ^ f + 1 / 2\<rfloor>;
          m = decimal n;
          m = (if f \<noteq> 0 \<and> length m \<le> f then replicate (f + 1 - length m) (CHR ''0'') @ m else m)
      in if f \<noteq> 0 then s @ take (length m - f) m @ ''.'' @ drop (length m - f) m else s @ m)"

text \<open>
  From \<open>10\<^sup>2\<^sup>1\<close> on \<open>toFixed\<close> hands over to the conversion of a number to a string, which
  writes such a value in exponent notation: the digits are those of the least number of
  digits \<open>k\<close> for which some \<open>s\<close> of \<open>k\<close> digits and \<open>n\<close> have \<open>s * 10\<^sup>n\<^sup>-\<^sup>k\<close> round to the
  double, the nearest such \<open>s\<close>, the even one of two (the version of the step that the
  language definition recommends and the engines implement). \<open>a\<close> has \<open>d\<close> digits before
  the point; a candidate \<open>s = 10\<^sup>k\<close> stands for \<open>10\<^sup>d\<close>, the first value with \<open>d + 1\<close> digits.
\<close>

definition candidates :: "real \<Rightarrow> nat \<Rightarrow> nat \<Rightarrow> nat list" where
  "candidates a d k =
     (let lo = nat \<lfloor>a / 10 ^ (d - k)\<rfloor>
      in filter (\<lambda>s. 10 ^ (k - 1) \<le> s \<and> s \<le> 10 ^ k \<and> rnd (real s * 10 ^ (d - k)) = Fin a)
           [lo, lo + 1])"

definition closest :: "real \<Rightarrow> nat \<Rightarrow> nat \<Rightarrow> nat list \<Rightarrow> nat" where
  "closest a d k cs =
     (case cs of
        [lo, hi] \<Rightarrow>
          let below = a - real lo * 10 ^ (d - k); above = real hi * 10 ^ (d - k) - a
          in if below < above then lo else if above < below then hi
             else if even lo then lo else hi
      | s # _ \<Rightarrow> s
      | [] \<Rightarrow> 0)"

text \<open>
  The search for the least \<open>k\<close>, from \<open>k\<close> on over \<open>tries\<close> values; 17 digits always tell a
  double from its neighbours, which is where the search ends.
\<close>

fun shortest :: "real \<Rightarrow> nat \<Rightarrow> nat \<Rightarrow> nat \<Rightarrow> nat \<times> nat" where
  "shortest a d k 0 = (k, nat \<lfloor>a / 10 ^ (d - k) + 1 / 2\<rfloor>)"
| "shortest a d k (Suc tries) =
     (case candidates a d k of
        [] \<Rightarrow> shortest a d (Suc k) tries
      | cs \<Rightarrow> (k, closest a d k cs))"

definition exponent_notation :: "real \<Rightarrow> string" where
  "exponent_notation a =
     (let d = length (decimal (nat \<lfloor>a\<rfloor>));
          (k, s) = shortest a d 1 16;
          digits = (if s = 10 ^ k then ''1'' else decimal s);
          e = (if s = 10 ^ k then d else d - 1)
      in (case digits of
            [] \<Rightarrow> []
          | [c] \<Rightarrow> [c]
          | c # cs \<Rightarrow> c # ''.'' @ cs)
         @ ''e+'' @ decimal e)"

text \<open>
  \<open>x.toFixed(f)\<close>: NaN and the infinities print as their names; a negative number gets
  its sign (the negative zero is not below zero and gets none); a magnitude from \<open>10\<^sup>2\<^sup>1\<close>
  on is written in exponent notation and a smaller one in fixed notation.
\<close>

definition toFixed :: "nat \<Rightarrow> number \<Rightarrow> string" where
  "toFixed f x =
     (case x of
        NaN \<Rightarrow> ''NaN''
      | PosInf \<Rightarrow> ''Infinity''
      | NegInf \<Rightarrow> ''-Infinity''
      | NegZero \<Rightarrow> fixed_notation f 0
      | Fin r \<Rightarrow>
          if 10 ^ 21 \<le> \<bar>r\<bar> then (if r < 0 then ''-'' else []) @ exponent_notation \<bar>r\<bar>
          else fixed_notation f r)"


section \<open>The data model\<close>

record PositionRow =
  date :: string
  address :: string
  project :: string
  protocol :: string
  symbol :: string
  balance :: number
  usd_balance :: number
  usd_exchange_rate :: number
  lending_id :: string
  mint :: string
  token_name :: string

section \<open>The formatters (\<open>src/lib/formatters.ts\<close>)\<close>

definition formatUSD :: "number \<Rightarrow> string" where
  "formatUSD v =
     (if v \<ge> Fin 1000000 then ''$'' @ toFixed 2 (v / Fin 1000000) @ ''M''
      else if v \<ge> Fin 1000 then ''$'' @ toFixed 2 (v / Fin 1000) @ ''K''
      else ''$'' @ toFixed 2 v)"

definition formatBalance :: "number \<Rightarrow> string" where
  "formatBalance v =
     (if v \<ge> Fin 1000000 then toFixed 4 (v / Fin 1000000) @ ''M''
      else if v \<ge> Fin 1000 then toFixed 4 (v / Fin 1000) @ ''K''
      else toFixed 6 v)"

text \<open>\<open>dateStr.split("T")[0]\<close>: the part before the first \<open>T\<close>.\<close>

definition formatDate :: "string \<Rightarrow> string" where
  "formatDate dateStr = takeWhile (\<lambda>c. c \<noteq> CHR ''T'') dateStr"

definition shortAddr :: "string \<Rightarrow> string" where
  "shortAddr a = slice_first4 a @ ''...'' @ slice_last4 a"

definition data_source :: string where
  "data_source = ''\<newline>_Data source: Allium `solana.lending.position_holdings_daily`_''"

text \<open>A value interpolated into a template literal: \<open>undefined\<close> prints as its name.\<close>

fun interpolate :: "string option \<Rightarrow> string" where
  "interpolate None = ''undefined''"
| "interpolate (Some s) = s"

subsection \<open>Snapshot\<close>

definition position_line :: "PositionRow \<Rightarrow> string" where
  "position_line row =
     ''| '' @ symbol row @ '' | '' @ project row @ '' ('' @ PositionRow.protocol row @ '') | ''
       @ formatBalance (balance row) @ '' | '' @ formatUSD (usd_balance row) @ '' | $''
       @ toFixed 4 (usd_exchange_rate row) @ '' |\<newline>''"

definition formatPositionTable :: "PositionRow list \<Rightarrow> string" where
  "formatPositionTable rows =
     (case rows of
        [] \<Rightarrow> ''No positions found for this wallet on the specified date. The wallet may not have had any active Kamino lending positions, or the date may be outside the available data range (March 2025 onwards).''
      | row0 # _ \<Rightarrow>
          let date = formatDate (PositionRow.date row0);
              totalUSD = foldl (\<lambda>total r. total + usd_balance r) 0 rows;
              md = ''### Lending Positions for `'' @ shortAddr (PositionRow.address row0) @ ''` on ''
                     @ date @ ''\<newline>\<newline>'';
              md = md @ ''| Token | Protocol | Balance | USD Value | Price |\<newline>'';
              md = md @ ''|-------|----------|---------|-----------|-------|\<newline>'';
              md = foldl (\<lambda>md row. md @ position_line row) md rows;
              md = md @ ''\<newline>**Total Portfolio Value: '' @ formatUSD totalUSD @ ''**\<newline>''
          in md @ data_source)"

subsection \<open>Range\<close>

text \<open>
  \<open>byDate\<close> is a \<open>Map\<close> from the normalised date to the rows of that date, in insertion
  order: an association list with one entry per key.
\<close>

definition map_has :: "('k \<times> 'v) list \<Rightarrow> 'k \<Rightarrow> bool" where
  "map_has m k = (k \<in> set (map fst m))"

definition map_get :: "('k \<times> 'v) list \<Rightarrow> 'k \<Rightarrow> 'v option" where
  "map_get m k = map_of m k"

definition map_set :: "('k \<times> 'v) list \<Rightarrow> 'k \<Rightarrow> 'v \<Rightarrow> ('k \<times> 'v) list" where
  "map_set m k v =
     (if map_has m k then map (\<lambda>(k', v'). if k' = k then (k', v) else (k', v')) m
      else m @ [(k, v)])"

text \<open>The body of the grouping loop: create the entry when missing, then push the row.\<close>

definition group_row :: "(string \<times> PositionRow list) list \<Rightarrow> PositionRow \<Rightarrow> (string \<times> PositionRow list) list" where
  "group_row byDate row =
     (let d = formatDate (PositionRow.date row);
          byDate = (if \<not> map_has byDate d then map_set byDate d [] else byDate)
      in case map_get byDate d of
           Some rs \<Rightarrow> map_set byDate d (rs @ [row])
         | None \<Rightarrow> byDate)"

text \<open>\<open>[...new Set(xs)]\<close>: the distinct elements in the order of their first occurrence.\<close>

definition set_add :: "'a list \<Rightarrow> 'a \<Rightarrow> 'a list" where
  "set_add seen x = (if x \<in> set seen then seen else seen @ [x])"

definition unique :: "'a list \<Rightarrow> 'a list" where
  "unique xs = foldl set_add [] xs"

text \<open>\<open>byDate.get(date) || []\<close>, where \<open>date\<close> may be \<open>undefined\<close>.\<close>

definition rows_of :: "(string \<times> PositionRow list) list \<Rightarrow> string option \<Rightarrow> PositionRow list" where
  "rows_of byDate key =
     (case key of
        None \<Rightarrow> []
      | Some d \<Rightarrow> (case map_get byDate d of None \<Rightarrow> [] | Some rs \<Rightarrow> rs))"

definition range_line :: "string \<Rightarrow> PositionRow \<Rightarrow> string" where
  "range_line d symbolRow =
     ''| '' @ d @ '' | '' @ formatBalance (balance symbolRow) @ '' | ''
       @ formatUSD (usd_balance symbolRow) @ '' | $''
       @ toFixed 4 (usd_exchange_rate symbolRow) @ '' |\<newline>''"

text \<open>The body of the inner loop over the dates of one symbol's table.\<close>

definition range_date_step ::
  "(string \<times> PositionRow list) list \<Rightarrow> string \<Rightarrow> string \<Rightarrow> string \<Rightarrow> string" where
  "range_date_step byDate symb md d =
     (let dateRows = rows_of byDate (Some d)
      in case find (\<lambda>r. symbol r = symb) dateRows of
           Some symbolRow \<Rightarrow> md @ range_line d symbolRow
         | None \<Rightarrow> md)"

text \<open>The body of the outer loop over the symbols.\<close>

definition range_symbol_step ::
  "(string \<times> PositionRow list) list \<Rightarrow> string list \<Rightarrow> string \<Rightarrow> string \<Rightarrow> string" where
  "range_symbol_step byDate dates md symb =
     (let md = md @ ''#### '' @ symb @ ''\<newline>\<newline>'';
          md = md @ ''| Date | Balance | USD Value | Price |\<newline>'';
          md = md @ ''|------|---------|-----------|-------|\<newline>'';
          md = foldl (range_date_step byDate symb) md dates
      in md @ ''\<newline>'')"

definition formatRangeTable :: "PositionRow list \<Rightarrow> string" where
  "formatRangeTable rows =
     (case rows of
        [] \<Rightarrow> ''No positions found for this wallet in the specified date range.''
      | row0 # _ \<Rightarrow>
          let byDate = foldl group_row [] rows;
              symbols = unique (map symbol rows);
              dates = sort (map fst byDate);
              startDate = at_index dates 0;
              endDate = at_index dates (length dates - 1);
              md = ''### Position History for `'' @ shortAddr (PositionRow.address row0) @ ''` (''
                     @ interpolate startDate @ '' to '' @ interpolate endDate @ '')\<newline>\<newline>'';
              md = foldl (range_symbol_step byDate dates) md symbols;
              firstDate = rows_of byDate (at_index dates 0);
              lastDate = rows_of byDate (at_index dates (length dates - 1));
              firstTotal = foldl (\<lambda>sum r. sum + usd_balance r) 0 firstDate;
              lastTotal = foldl (\<lambda>sum r. sum + usd_balance r) 0 lastDate;
              change = lastTotal - firstTotal;
              pctChange = (if firstTotal > 0 then toFixed 2 ((change / firstTotal) * Fin 100) else ''N/A'');
              md = md @ ''**Period Summary:**\<newline>'';
              md = md @ ''- Start value ('' @ interpolate startDate @ ''): '' @ formatUSD firstTotal @ ''\<newline>'';
              md = md @ ''- End value ('' @ interpolate endDate @ ''): '' @ formatUSD lastTotal @ ''\<newline>'';
              md = md @ ''- Change: '' @ formatUSD change @ '' ('' @ pctChange @ ''%)\<newline>''
          in md @ data_source)"

subsection \<open>Comparison\<close>

text \<open>\<open>r?.balance ?? 0\<close> and \<open>r?.usd_balance ?? 0\<close> for the result \<open>r\<close> of \<open>find\<close>.\<close>

definition balance_or_0 :: "PositionRow option \<Rightarrow> number" where
  "balance_or_0 r = (case r of None \<Rightarrow> 0 | Some row \<Rightarrow> balance row)"

definition usd_or_0 :: "PositionRow option \<Rightarrow> number" where
  "usd_or_0 r = (case r of None \<Rightarrow> 0 | Some row \<Rightarrow> usd_balance row)"

text \<open>
  The state of the loop over \<open>allSymbols\<close>: the Markdown so far and the two running
  totals.
\<close>

record comparison_state =
  md_so_far :: string
  totalD1 :: number
  totalD2 :: number

text \<open>
  \<open>base > 0 ? ((change / base) * 100).toFixed(2) + "%" : "N/A"\<close>, written twice in the
  source: for a symbol's line and for the totals.
\<close>

definition percent_cell :: "number \<Rightarrow> number \<Rightarrow> string" where
  "percent_cell change base =
     (if base > 0 then toFixed 2 ((change / base) * Fin 100) @ ''%'' else ''N/A'')"

definition comparison_line :: "PositionRow list \<Rightarrow> PositionRow list \<Rightarrow> string \<Rightarrow> string" where
  "comparison_line d1Rows d2Rows symb =
     (let r1 = find (\<lambda>r. symbol r = symb) d1Rows;
          r2 = find (\<lambda>r. symbol r = symb) d2Rows;
          bal1 = balance_or_0 r1;
          usd1 = usd_or_0 r1;
          bal2 = balance_or_0 r2;
          usd2 = usd_or_0 r2;
          usdChange = usd2 - usd1;
          pctChange = percent_cell usdChange usd1
      in ''| '' @ symb @ '' | '' @ formatBalance bal1 @ '' | '' @ formatUSD usd1 @ '' | ''
           @ formatBalance bal2 @ '' | '' @ formatUSD usd2 @ '' | '' @ formatUSD usdChange
           @ '' | '' @ pctChange @ '' |\<newline>'')"

definition comparison_step ::
  "PositionRow list \<Rightarrow> PositionRow list \<Rightarrow> comparison_state \<Rightarrow> string \<Rightarrow> comparison_state" where
  "comparison_step d1Rows d2Rows st symb =
     (let usd1 = usd_or_0 (find (\<lambda>r. symbol r = symb) d1Rows);
          usd2 = usd_or_0 (find (\<lambda>r. symbol r = symb) d2Rows)
      in \<lparr>md_so_far = md_so_far st @ comparison_line d1Rows d2Rows symb,
          totalD1 = totalD1 st + usd1,
          totalD2 = totalD2 st + usd2\<rparr>)"

text \<open>The loop over \<open>allSymbols\<close>, from the Markdown \<open>md0\<close> and the totals at zero.\<close>

definition comparison_loop ::
  "PositionRow list \<Rightarrow> PositionRow list \<Rightarrow> string list \<Rightarrow> string \<Rightarrow> comparison_state" where
  "comparison_loop d1Rows d2Rows allSymbols md0 =
     foldl (comparison_step d1Rows d2Rows) \<lparr>md_so_far = md0, totalD1 = 0, totalD2 = 0\<rparr> allSymbols"

definition formatComparisonTable :: "PositionRow list \<Rightarrow> string \<Rightarrow> string \<Rightarrow> string" where
  "formatComparisonTable rows date1 date2 =
     (case rows of
        [] \<Rightarrow> ''No positions found for comparison on the specified dates.''
      | row0 # _ \<Rightarrow>
          let d1Rows = filter (\<lambda>r. formatDate (PositionRow.date r) = date1) rows;
              d2Rows = filter (\<lambda>r. formatDate (PositionRow.date r) = date2) rows;
              allSymbols = unique (map symbol d1Rows @ map symbol d2Rows);
              md = ''### Position Comparison for `'' @ shortAddr (PositionRow.address row0) @ ''`: ''
                     @ date1 @ '' vs '' @ date2 @ ''\<newline>\<newline>'';
              md = md @ ''| Token | Balance ('' @ date1 @ '') | USD ('' @ date1 @ '') | Balance (''
                     @ date2 @ '') | USD ('' @ date2 @ '') | Change | % Change |\<newline>'';
              md = md @ ''|-------|'' @ replicate 18 (CHR ''-'') @ ''|'' @ replicate 16 (CHR ''-'')
                     @ ''|'' @ replicate 18 (CHR ''-'') @ ''|'' @ replicate 16 (CHR ''-'')
                     @ ''|--------|----------|\<newline>'';
              st = comparison_loop d1Rows d2Rows allSymbols md;
              totalChange = totalD2 st - totalD1 st;
              totalPct = percent_cell totalChange (totalD1 st);
              md = md_so_far st @ ''\<newline>**Total Portfolio:**\<newline>'';
              md = md @ ''- '' @ date1 @ '': '' @ formatUSD (totalD1 st) @ ''\<newline>'';
              md = md @ ''- '' @ date2 @ '': '' @ formatUSD (totalD2 st) @ ''\<newline>'';
              md = md @ ''- Change: '' @ formatUSD totalChange @ '' ('' @ totalPct @ '')\<newline>''
          in md @ data_source)"


section \<open>The parsed query\<close>

text \<open>
  \<open>ParsedQuery\<close>: the field \<open>type\<close> is a string at run time (the five literals of the
  union are what the type checker allows, not what a cast value must hold); every other
  field is optional.
\<close>

record ParsedQuery =
  type :: string
  address :: "string option"
  date :: "string option"
  start_date :: "string option"
  end_date :: "string option"
  date1 :: "string option"
  date2 :: "string option"
  protocol :: "string option"
  message :: "string option"

text \<open>The object literal \<open>{ type: t }\<close>: every other property is absent.\<close>

definition object_of_type :: "string \<Rightarrow> ParsedQuery" where
  "object_of_type t =
     \<lparr>type = t, address = None, date = None, start_date = None, end_date = None,
      date1 = None, date2 = None, protocol = None, message = None\<rparr>"


section \<open>The deterministic parser (\<open>regexParse\<close>)\<close>

definition digit :: "char \<Rightarrow> bool" where
  "digit c = (CHR ''0'' \<le> c \<and> c \<le> CHR ''9'')"

definition base58 :: "char \<Rightarrow> bool" where
  "base58 c =
     ((CHR ''1'' \<le> c \<and> c \<le> CHR ''9'') \<or> (CHR ''A'' \<le> c \<and> c \<le> CHR ''H'')
      \<or> (CHR ''J'' \<le> c \<and> c \<le> CHR ''N'') \<or> (CHR ''P'' \<le> c \<and> c \<le> CHR ''Z'')
      \<or> (CHR ''a'' \<le> c \<and> c \<le> CHR ''k'') \<or> (CHR ''m'' \<le> c \<and> c \<le> CHR ''z''))"

text \<open>
  \<open>msg.match(/[1-9A-HJ-NP-Za-km-z]{32,44}/)\<close>: the leftmost position at which at least
  32 characters of the class follow each other; the quantifier is greedy and takes up to
  44 of them.
\<close>

fun match_address :: "string \<Rightarrow> string option" where
  "match_address [] = None"
| "match_address (c # cs) =
     (let run = takeWhile base58 (c # cs)
      in if 32 \<le> length run then Some (take 44 run) else match_address cs)"

text \<open>A sequence of single-character atoms matches at the start of a string.\<close>

fun match_atoms :: "(char \<Rightarrow> bool) list \<Rightarrow> string \<Rightarrow> bool" where
  "match_atoms [] s = True"
| "match_atoms (p # ps) [] = False"
| "match_atoms (p # ps) (c # cs) = (p c \<and> match_atoms ps cs)"

definition dash :: "char \<Rightarrow> bool" where
  "dash c = (c = CHR ''-'')"

text \<open>\<open>\d{4}-\d{2}-\d{2}\<close> matches at the start of \<open>s\<close>.\<close>

definition date_at :: "string \<Rightarrow> bool" where
  "date_at s =
     match_atoms [digit, digit, digit, digit, dash, digit, digit, dash, digit, digit] s"

text \<open>
  \<open>msg.match(/\d{4}-\d{2}-\d{2}/g) || []\<close>: the scan tries every start position from
  left to right and resumes after the end of each match.
\<close>

function match_dates :: "string \<Rightarrow> string list" where
  "match_dates [] = []"
| "match_dates (c # cs) =
     (if date_at (c # cs) then take 10 (c # cs) # match_dates (drop 10 (c # cs))
      else match_dates cs)"
  by pat_completeness auto
termination
  by (relation "measure length") auto

definition regexParse :: "string \<Rightarrow> ParsedQuery" where
  "regexParse msg =
     (let lower = toLowerCase msg;
          address = match_address msg;
          dateMatches = match_dates msg
      in if str_includes lower ''help'' \<or> str_includes lower ''what can you''
            \<or> lower = ''hi'' \<or> lower = ''hello''
         then object_of_type ''help''
         else if falsy address
         then (object_of_type ''error'')
                \<lparr>message := Some (''I need a Solana wallet address. Try: 'Show me positions for `<wallet_address>` on 2025-12-31'' @ [CHR 0x27])\<rparr>
         else if (str_includes lower ''compare'' \<or> str_includes lower ''vs'' \<or> str_includes lower ''versus'')
                 \<and> 2 \<le> length dateMatches
         then (object_of_type ''comparison'')
                \<lparr>address := address, date1 := at_index dateMatches 0,
                 date2 := at_index dateMatches 1\<rparr>
         else if (str_includes lower ''from'' \<or> str_includes lower ''history''
                  \<or> str_includes lower ''range'' \<or> str_includes lower ''between'')
                 \<and> 2 \<le> length dateMatches
         then (object_of_type ''range'')
                \<lparr>address := address, start_date := at_index dateMatches 0,
                 end_date := at_index dateMatches 1\<rparr>
         else if 1 \<le> length dateMatches
         then (object_of_type ''snapshot'')
                \<lparr>address := address, date := at_index dateMatches 0\<rparr>
         else (object_of_type ''error'')
                \<lparr>message := Some (''I found a wallet address but need a date. Try: 'Show me positions for `<wallet>` on 2025-12-31'' @ [CHR 0x27])\<rparr>)"


section \<open>The request handler (\<open>POST\<close>)\<close>

text \<open>
  The handler from the parsed query on. \<open>queryAllium\<close> is the call of the query service:
  it either throws an \<open>Error\<close> (\<open>Inl\<close>, with its message) or returns the rows (\<open>Inr\<close>). The
  handler's result is the JSON response together with the trace of its effects: every
  query text that a builder compiled and every query text that was sent to the service.
\<close>

datatype effect = Compiled string | Executed string

record json_response =
  status :: nat
  response :: string
  query_type :: string
  sql :: "string option"

text \<open>\<open>x || d\<close> for \<open>x : string | undefined\<close>.\<close>

fun or_else :: "string option \<Rightarrow> string \<Rightarrow> string" where
  "or_else None d = d"
| "or_else (Some s) d = (if s = [] then d else s)"

text \<open>The value of a truthy \<open>x : string | undefined\<close>.\<close>

fun truthy :: "string option \<Rightarrow> string option" where
  "truthy None = None"
| "truthy (Some s) = (if s = [] then None else Some s)"

definition help_text :: string where
  \<open>help_text = ''I can help you look up historical DeFi lending positions on Solana (Kamino). Try:\<newline>\<newline>- **Snapshot:** "Show me positions for `<wallet>` on 2025-12-31"\<newline>- **Range:** "Show me positions for `<wallet>` from 2025-10-01 to 2025-12-31"\<newline>- **Compare:** "Compare `<wallet>` positions on 2025-09-30 vs 2025-12-31"\<newline>\<newline>Available tokens: USDC, SOL, USDG, PYUSD, USDT, USDS\<newline>Date range: March 2025 to present''\<close>

definition ok_response :: "string \<Rightarrow> string \<Rightarrow> string option \<Rightarrow> json_response" where
  "ok_response text kind query = \<lparr>status = 200, response = text, query_type = kind, sql = query\<rparr>"

text \<open>
  The query is run and its rows are formatted; an \<open>Error\<close> thrown by the service is caught
  by the handler's \<open>catch\<close> and answered with status 500.
\<close>

definition run_query ::
  "(string \<Rightarrow> string + PositionRow list) \<Rightarrow> string \<Rightarrow> string \<Rightarrow> (PositionRow list \<Rightarrow> string)
     \<Rightarrow> effect list \<times> json_response" where
  "run_query queryAllium kind query format =
     (case queryAllium query of
        Inl errorMessage \<Rightarrow>
          ([Compiled query, Executed query],
           \<lparr>status = 500, response = ''Something went wrong: '' @ errorMessage,
            query_type = ''error'', sql = None\<rparr>)
      | Inr rows \<Rightarrow>
          ([Compiled query, Executed query], ok_response (format rows) kind (Some query)))"

definition POST ::
  "(string \<Rightarrow> string + PositionRow list) \<Rightarrow> ParsedQuery \<Rightarrow> effect list \<times> json_response" where
  "POST queryAllium parsed =
     (if type parsed = ''help'' then
        ([], ok_response (or_else (message parsed) help_text) ''help'' None)
      else if type parsed = ''error'' then
        ([], ok_response (or_else (message parsed) ''I couldn't understand that query.'') ''error'' None)
      else if type parsed = ''snapshot'' then
        (case (truthy (address parsed), truthy (date parsed)) of
           (Some a, Some d) \<Rightarrow>
             run_query queryAllium (type parsed) (buildPositionQuery a d (protocol parsed))
               formatPositionTable
         | _ \<Rightarrow>
             ([], ok_response (''I need both a wallet address and a date. Try: 'Show me positions for `<wallet>` on 2025-12-31'' @ [CHR 0x27]) ''error'' None))
      else if type parsed = ''range'' then
        (case (truthy (address parsed), truthy (start_date parsed), truthy (end_date parsed)) of
           (Some a, Some s, Some e) \<Rightarrow>
             run_query queryAllium (type parsed) (buildPositionRangeQuery a s e (protocol parsed))
               formatRangeTable
         | _ \<Rightarrow>
             ([], ok_response (''I need a wallet address, start date, and end date. Try: 'Show positions for `<wallet>` from 2025-10-01 to 2025-12-31'' @ [CHR 0x27]) ''error'' None))
      else if type parsed = ''comparison'' then
        (case (truthy (address parsed), truthy (date1 parsed), truthy (date2 parsed)) of
           (Some a, Some d1, Some d2) \<Rightarrow>
             run_query queryAllium (type parsed) (buildComparisonQuery a d1 d2 (protocol parsed))
               (\<lambda>rows. formatComparisonTable rows d1 d2)
         | _ \<Rightarrow>
             ([], ok_response (''I need a wallet address and two dates to compare. Try: 'Compare `<wallet>` on 2025-09-30 vs 2025-12-31'' @ [CHR 0x27]) ''error'' None))
      else ([], ok_response ''Unsupported query type.'' ''error'' None))"


section \<open>Vocabulary of the statements\<close>

text \<open>
  The base58 alphabet: the digits and letters without \<open>0\<close>, \<open>O\<close>, \<open>I\<close> and \<open>l\<close>. \<open>run_at msg k\<close> is
  the longest stretch of base58 characters of \<open>msg\<close> from position \<open>k\<close> on.
\<close>

definition base58_alphabet :: string where
  "base58_alphabet = ''123456789ABCDEFGHJKLMNPQRSTUVWXYZabcdefghijkmnopqrstuvwxyz''"

definition run_at :: "string \<Rightarrow> nat \<Rightarrow> string" where
  "run_at msg k = takeWhile (\<lambda>c. c \<in> set base58_alphabet) (drop k msg)"

text \<open>
  A date as the utterances write it: ten characters, four digits, a dash, two digits, a
  dash and two digits. \<open>date_position msg i\<close>: such a date is written in \<open>msg\<close> from position
  \<open>i\<close> on.
\<close>

definition is_date :: "string \<Rightarrow> bool" where
  "is_date d =
     (length d = 10 \<and> d ! 4 = CHR ''-'' \<and> d ! 7 = CHR ''-''
      \<and> list_all (\<lambda>n. d ! n \<in> set ''0123456789'') [0, 1, 2, 3, 5, 6, 8, 9])"

definition date_position :: "string \<Rightarrow> nat \<Rightarrow> bool" where
  "date_position msg i = is_date (take 10 (drop i msg))"

text \<open>
  A fixed-point numeral with \<open>f\<close> decimals: an optional minus sign, at least one digit, a
  point and exactly \<open>f\<close> digits.
\<close>

definition fixed_point :: "nat \<Rightarrow> string \<Rightarrow> bool" where
  "fixed_point f s =
     (let t = (case s of [] \<Rightarrow> [] | c # cs \<Rightarrow> if c = CHR ''-'' then cs else s);
          whole = takeWhile digit t
      in whole \<noteq> []
         \<and> (case dropWhile digit t of
               [] \<Rightarrow> False
             | c # fraction \<Rightarrow> c = CHR ''.'' \<and> length fraction = f \<and> list_all digit fraction))"

text \<open>The number that a fixed-point numeral with \<open>f\<close> decimals denotes.\<close>

definition digits_value :: "string \<Rightarrow> nat" where
  "digits_value ds = foldl (\<lambda>n c. 10 * n + (of_char c - 48)) 0 ds"

definition fixed_value :: "nat \<Rightarrow> string \<Rightarrow> real" where
  "fixed_value f s =
     (if s \<noteq> [] \<and> hd s = CHR ''-'' then - 1 else 1)
       * real (digits_value (filter digit s)) / 10 ^ f"

text \<open>
  The first row of a symbol in a list of rows, and its balance and USD value: zero when
  the symbol has no row.
\<close>

definition first_row :: "PositionRow list \<Rightarrow> string \<Rightarrow> PositionRow option" where
  "first_row rows s = (case filter (\<lambda>r. symbol r = s) rows of [] \<Rightarrow> None | r # _ \<Rightarrow> Some r)"

definition first_balance :: "PositionRow list \<Rightarrow> string \<Rightarrow> number" where
  "first_balance rows s = (case first_row rows s of None \<Rightarrow> Fin 0 | Some r \<Rightarrow> balance r)"

definition first_usd :: "PositionRow list \<Rightarrow> string \<Rightarrow> number" where
  "first_usd rows s = (case first_row rows s of None \<Rightarrow> Fin 0 | Some r \<Rightarrow> usd_balance r)"

text \<open>The rows of a list that are the first of their symbol.\<close>

fun first_per_symbol :: "PositionRow list \<Rightarrow> PositionRow list" where
  "first_per_symbol [] = []"
| "first_per_symbol (r # rs) = r # first_per_symbol (filter (\<lambda>x. symbol x \<noteq> symbol r) rs)"


section \<open>Example inputs\<close>

text \<open>
  The three example queries of the chat page (\<open>EXAMPLE_QUERIES\<close>), and a comparison
  whose dates are written in reverse chronological order.
\<close>

definition example_snapshot :: string where
  "example_snapshot = ''Show me positions for GQRzZVLkmehJM1fnMj8e8DdhxMPmQBEGiSnSWeVeJvCc on 2025-12-31''"

definition example_range :: string where
  "example_range = ''Show position history for GQRzZVLkmehJM1fnMj8e8DdhxMPmQBEGiSnSWeVeJvCc from 2025-12-01 to 2025-12-31''"

definition example_comparison :: string where
  "example_comparison = ''Compare GQRzZVLkmehJM1fnMj8e8DdhxMPmQBEGiSnSWeVeJvCc on 2025-10-01 vs 2025-12-31''"

definition example_reversed :: string where
  "example_reversed = ''Compare GQRzZVLkmehJM1fnMj8e8DdhxMPmQBEGiSnSWeVeJvCc on 2025-12-31 vs 2025-09-30''"

text \<open>A row of the example wallet with the given date, symbol, balance and USD value.\<close>

definition example_row :: "string \<Rightarrow> string \<Rightarrow> real \<Rightarrow> real \<Rightarrow> PositionRow" where
  "example_row d s b u =
     \<lparr>PositionRow.date = d, PositionRow.address = ''GQRzZVLkmehJM1fnMj8e8DdhxMPmQBEGiSnSWeVeJvCc'',
      project = ''kamino'', PositionRow.protocol = ''kvault'', symbol = s, balance = Fin b,
      usd_balance = Fin u, usd_exchange_rate = Fin 1, lending_id = ''L'', mint = ''M'',
      token_name = s\<rparr>"

text \<open>Two rows of one date that share their symbol.\<close>

definition duplicate_rows :: "PositionRow list" where
  "duplicate_rows =
     [example_row ''2025-12-31'' ''USDC'' 100 100, example_row ''2025-12-31'' ''USDC'' 50 50]"

text \<open>Two rows of one date worth 1000 and 5.\<close>

definition thousand_rows :: "PositionRow list" where
  "thousand_rows =
     [example_row ''2025-12-31'' ''USDC'' 1000 1000, example_row ''2025-12-31'' ''SOL'' 5 5]"

text \<open>Three dates; \<open>SOL\<close> has no row on the middle one.\<close>

definition gap_rows :: "PositionRow list" where
  "gap_rows =
     [example_row ''2025-12-01T00:00:00'' ''USDC'' 100 100, example_row ''2025-12-01T00:00:00'' ''SOL'' 2 300,
      example_row ''2025-12-02T00:00:00'' ''USDC'' 120 120,
      example_row ''2025-12-03T00:00:00'' ''USDC'' 90 90, example_row ''2025-12-03T00:00:00'' ''SOL'' 3 480]"

text \<open>
  Two comparison dates; the first date has two \<open>USDC\<close> rows. The second list is the first
  without the later duplicate.
\<close>

definition comparison_duplicates :: "PositionRow list" where
  "comparison_duplicates =
     [example_row ''2025-09-30'' ''USDC'' 100 100, example_row ''2025-09-30'' ''USDC'' 50 50,
      example_row ''2025-12-31'' ''USDC'' 70 70]"

definition comparison_firsts :: "PositionRow list" where
  "comparison_firsts =
     [example_row ''2025-09-30'' ''USDC'' 100 100, example_row ''2025-12-31'' ''USDC'' 70 70]"

text \<open>One symbol on both comparison dates, with a negative USD value on the first.\<close>

definition negative_rows :: "PositionRow list" where
  "negative_rows =
     [example_row ''2025-09-30'' ''USDC'' 1 (- 50), example_row ''2025-12-31'' ''USDC'' 1 100]"

text \<open>One symbol on both comparison dates, worth nothing on the first.\<close>

definition zero_rows :: "PositionRow list" where
  "zero_rows =
     [example_row ''2025-09-30'' ''USDC'' 1 0, example_row ''2025-12-31'' ''USDC'' 1 100]"

definition growth_rows :: "PositionRow list" where
  "growth_rows =
     [example_row ''2025-09-30'' ''USDC'' 80 80, example_row ''2025-12-31'' ''USDC'' 100 100]"

text \<open>One symbol on both comparison dates, worth 160 on the first and 183 on the second.\<close>

definition rounding_rows :: "PositionRow list" where
  "rounding_rows =
     [example_row ''2025-09-30'' ''USDC'' 160 160, example_row ''2025-12-31'' ''USDC'' 183 183]"

section \<open>Properties of the query builders\<close>

lemma str_includes_sublist: "str_includes s t \<longleftrightarrow> sublist t s"
  by (induction s) (simp_all add: sublist_Cons_right)

lemma inc_refl: "str_includes t t"
  by (simp add: str_includes_sublist)

lemma inc_appendL: "str_includes B t \<Longrightarrow> str_includes (A @ B) t"
  unfolding str_includes_sublist sublist_def by (metis append_assoc)

lemma inc_appendR: "str_includes A t \<Longrightarrow> str_includes (A @ B) t"
  unfolding str_includes_sublist sublist_def by (metis append_assoc)

lemma join3: "join sep ([a, b, c] @ pc) = a @ sep @ b @ sep @ c @ (if pc = [] then [] else sep @ join sep pc)"
  by (cases pc) simp_all

lemma join4: "join sep ([a, b, c, d] @ pc) = a @ sep @ b @ sep @ c @ sep @ d @ (if pc = [] then [] else sep @ join sep pc)"
  by (cases pc) simp_all

text \<open>
  Lower-casing reaches the letters of Latin-1: \<open>0xC9\<close> becomes \<open>0xE9\<close> and \<open>0xDE\<close> becomes \<open>0xFE\<close>;
  the multiplication sign \<open>0xD7\<close> and the sharp s \<open>0xDF\<close> stay.
\<close>

lemma toLowerCase_latin1:
  "toLowerCase [CHR 0xC9, CHR ''K'', CHR 0xD7, CHR 0xDE, CHR 0xDF]
     = [CHR 0xE9, CHR ''k'', CHR 0xD7, CHR 0xFE, CHR 0xDF]"
  by code_simp

lemma protocol_condition_truthy:
  "p \<noteq> [] \<Longrightarrow> protocol_condition (Some p) = [''project = '' @ [CHR 0x27] @ toLowerCase p @ [CHR 0x27]]"
  by (simp add: protocol_condition_def)

lemma protocol_condition_falsy: "falsy p \<Longrightarrow> protocol_condition p = []"
  by (cases p) (simp_all add: protocol_condition_def)

lemma buildPositionQuery_text:
  "buildPositionQuery a d p =
     select_from @ (''address = '' @ [CHR 0x27] @ a @ [CHR 0x27]) @ '' AND ''
       @ (''date = '' @ [CHR 0x27] @ d @ [CHR 0x27]) @ '' AND '' @ ''balance > 0''
       @ (if protocol_condition p = [] then [] else '' AND '' @ join '' AND '' (protocol_condition p))
       @ ''\<newline>    ORDER BY usd_balance DESC\<newline>    LIMIT 50\<newline>  ''"
  unfolding buildPositionQuery_def Let_def join3 by (simp only: append_assoc)

lemma buildPositionRangeQuery_text:
  "buildPositionRangeQuery a s e p =
     select_from @ (''address = '' @ [CHR 0x27] @ a @ [CHR 0x27]) @ '' AND ''
       @ (''date >= '' @ [CHR 0x27] @ s @ [CHR 0x27]) @ '' AND ''
       @ (''date <= '' @ [CHR 0x27] @ e @ [CHR 0x27]) @ '' AND '' @ ''balance > 0''
       @ (if protocol_condition p = [] then [] else '' AND '' @ join '' AND '' (protocol_condition p))
       @ ''\<newline>    ORDER BY date ASC, usd_balance DESC\<newline>    LIMIT 500\<newline>  ''"
  unfolding buildPositionRangeQuery_def Let_def join4 by (simp only: append_assoc)

lemma buildComparisonQuery_text:
  "buildComparisonQuery a d1 d2 p =
     select_from @ (''address = '' @ [CHR 0x27] @ a @ [CHR 0x27]) @ '' AND ''
       @ (''date IN ('' @ [CHR 0x27] @ d1 @ [CHR 0x27] @ '', '' @ [CHR 0x27] @ d2 @ [CHR 0x27] @ '')'')
       @ '' AND '' @ ''balance > 0''
       @ (if protocol_condition p = [] then [] else '' AND '' @ join '' AND '' (protocol_condition p))
       @ ''\<newline>    ORDER BY date ASC, usd_balance DESC\<newline>    LIMIT 100\<newline>  ''"
  unfolding buildComparisonQuery_def Let_def join3 by (simp only: append_assoc)


lemma suffix_tail: "suffix t (A @ t)"
  by (simp add: suffix_def)

lemma suffix_appendL: "suffix t B \<Longrightarrow> suffix t (A @ B)"
  by (simp add: suffix_append)

lemma snapshot_clauses:
  "str_includes (buildPositionQuery a d p) ''balance > 0''
   \<and> str_includes (buildPositionQuery a d p) (''date = '' @ [CHR 0x27] @ d @ [CHR 0x27])
   \<and> suffix ''\<newline>    ORDER BY usd_balance DESC\<newline>    LIMIT 50\<newline>  '' (buildPositionQuery a d p)"
  unfolding buildPositionQuery_text
  by (intro conjI) (fast intro: inc_appendL inc_appendR inc_refl suffix_appendL suffix_order.refl)+

lemma range_clauses:
  "str_includes (buildPositionRangeQuery a s e p) ''balance > 0''
   \<and> str_includes (buildPositionRangeQuery a s e p) (''date >= '' @ [CHR 0x27] @ s @ [CHR 0x27])
   \<and> str_includes (buildPositionRangeQuery a s e p) (''date <= '' @ [CHR 0x27] @ e @ [CHR 0x27])
   \<and> suffix ''\<newline>    ORDER BY date ASC, usd_balance DESC\<newline>    LIMIT 500\<newline>  ''
         (buildPositionRangeQuery a s e p)"
  unfolding buildPositionRangeQuery_text
  by (intro conjI) (fast intro: inc_appendL inc_appendR inc_refl suffix_appendL suffix_order.refl)+

lemma comparison_clauses:
  "str_includes (buildComparisonQuery a d1 d2 p) ''balance > 0''
   \<and> str_includes (buildComparisonQuery a d1 d2 p)
         (''date IN ('' @ [CHR 0x27] @ d1 @ [CHR 0x27] @ '', '' @ [CHR 0x27] @ d2 @ [CHR 0x27] @ '')'')
   \<and> suffix ''\<newline>    ORDER BY date ASC, usd_balance DESC\<newline>    LIMIT 100\<newline>  ''
         (buildComparisonQuery a d1 d2 p)"
  unfolding buildComparisonQuery_text
  by (intro conjI) (fast intro: inc_appendL inc_appendR inc_refl suffix_appendL suffix_order.refl)+

lemma protocol_clause:
  assumes "p = Some x" and "x \<noteq> []"
  shows "str_includes (buildPositionQuery a d p)
           ('' AND '' @ ''project = '' @ [CHR 0x27] @ toLowerCase x @ [CHR 0x27])
       \<and> str_includes (buildPositionRangeQuery a s e p)
           ('' AND '' @ ''project = '' @ [CHR 0x27] @ toLowerCase x @ [CHR 0x27])
       \<and> str_includes (buildComparisonQuery a d1 d2 p)
           ('' AND '' @ ''project = '' @ [CHR 0x27] @ toLowerCase x @ [CHR 0x27])"
proof -
  have pc: "protocol_condition p = [''project = '' @ [CHR 0x27] @ toLowerCase x @ [CHR 0x27]]"
    using assms protocol_condition_truthy[of x] by blast
  have ne: "([''project = '' @ [CHR 0x27] @ toLowerCase x @ [CHR 0x27]] = []) = False"
    by simp
  show ?thesis
    unfolding buildPositionQuery_text buildPositionRangeQuery_text buildComparisonQuery_text
      pc ne if_False join.simps
    by (intro conjI) (fast intro: inc_appendL inc_appendR inc_refl)+
qed

lemma no_protocol_clause:
  assumes "p = None \<or> p = Some []"
  shows "buildPositionQuery a d p =
           select_from @ ''address = '' @ [CHR 0x27] @ a @ [CHR 0x27] @ '' AND '' @ ''date = ''
             @ [CHR 0x27] @ d @ [CHR 0x27] @ '' AND '' @ ''balance > 0''
             @ ''\<newline>    ORDER BY usd_balance DESC\<newline>    LIMIT 50\<newline>  ''
       \<and> buildPositionRangeQuery a s e p =
           select_from @ ''address = '' @ [CHR 0x27] @ a @ [CHR 0x27] @ '' AND '' @ ''date >= ''
             @ [CHR 0x27] @ s @ [CHR 0x27] @ '' AND '' @ ''date <= '' @ [CHR 0x27] @ e @ [CHR 0x27]
             @ '' AND '' @ ''balance > 0''
             @ ''\<newline>    ORDER BY date ASC, usd_balance DESC\<newline>    LIMIT 500\<newline>  ''
       \<and> buildComparisonQuery a d1 d2 p =
           select_from @ ''address = '' @ [CHR 0x27] @ a @ [CHR 0x27] @ '' AND '' @ ''date IN (''
             @ [CHR 0x27] @ d1 @ [CHR 0x27] @ '', '' @ [CHR 0x27] @ d2 @ [CHR 0x27] @ '')''
             @ '' AND '' @ ''balance > 0''
             @ ''\<newline>    ORDER BY date ASC, usd_balance DESC\<newline>    LIMIT 100\<newline>  ''"
proof -
  from assms have "falsy p" by auto
  then have pc: "protocol_condition p = []" by (rule protocol_condition_falsy)
  show ?thesis
    unfolding buildPositionQuery_text buildPositionRangeQuery_text buildComparisonQuery_text pc
    by (simp only: if_True simp_thms append_Nil append_assoc)
qed

text \<open>
  C3. Each builder is a function of its arguments alone, and its text contains the filter
  \<open>balance > 0\<close> and the date filter of its kind and ends with the ordering and the row cap
  of its kind. A truthy protocol (given and not the empty string) adds the condition
  \<open>project = '...'\<close> on the lower-cased protocol; otherwise the text is exactly the one
  with the address, date and balance conditions and no other.
\<close>

theorem query_builders_clauses:
  "(str_includes (buildPositionQuery a d p) ''balance > 0''
    \<and> str_includes (buildPositionQuery a d p) (''date = '' @ [CHR 0x27] @ d @ [CHR 0x27])
    \<and> suffix ''\<newline>    ORDER BY usd_balance DESC\<newline>    LIMIT 50\<newline>  '' (buildPositionQuery a d p))
   \<and> (str_includes (buildPositionRangeQuery a s e p) ''balance > 0''
    \<and> str_includes (buildPositionRangeQuery a s e p) (''date >= '' @ [CHR 0x27] @ s @ [CHR 0x27])
    \<and> str_includes (buildPositionRangeQuery a s e p) (''date <= '' @ [CHR 0x27] @ e @ [CHR 0x27])
    \<and> suffix ''\<newline>    ORDER BY date ASC, usd_balance DESC\<newline>    LIMIT 500\<newline>  ''
          (buildPositionRangeQuery a s e p))
   \<and> (str_includes (buildComparisonQuery a d1 d2 p) ''balance > 0''
    \<and> str_includes (buildComparisonQuery a d1 d2 p)
          (''date IN ('' @ [CHR 0x27] @ d1 @ [CHR 0x27] @ '', '' @ [CHR 0x27] @ d2 @ [CHR 0x27] @ '')'')
    \<and> suffix ''\<newline>    ORDER BY date ASC, usd_balance DESC\<newline>    LIMIT 100\<newline>  ''
          (buildComparisonQuery a d1 d2 p))
   \<and> (\<forall>x. p = Some x \<and> x \<noteq> [] \<longrightarrow>
         str_includes (buildPositionQuery a d p)
           ('' AND '' @ ''project = '' @ [CHR 0x27] @ toLowerCase x @ [CHR 0x27])
       \<and> str_includes (buildPositionRangeQuery a s e p)
           ('' AND '' @ ''project = '' @ [CHR 0x27] @ toLowerCase x @ [CHR 0x27])
       \<and> str_includes (buildComparisonQuery a d1 d2 p)
           ('' AND '' @ ''project = '' @ [CHR 0x27] @ toLowerCase x @ [CHR 0x27]))
   \<and> (p = None \<or> p = Some [] \<longrightarrow>
         buildPositionQuery a d p =
           select_from @ ''address = '' @ [CHR 0x27] @ a @ [CHR 0x27] @ '' AND '' @ ''date = ''
             @ [CHR 0x27] @ d @ [CHR 0x27] @ '' AND '' @ ''balance > 0''
             @ ''\<newline>    ORDER BY usd_balance DESC\<newline>    LIMIT 50\<newline>  ''
       \<and> buildPositionRangeQuery a s e p =
           select_from @ ''address = '' @ [CHR 0x27] @ a @ [CHR 0x27] @ '' AND '' @ ''date >= ''
             @ [CHR 0x27] @ s @ [CHR 0x27] @ '' AND '' @ ''date <= '' @ [CHR 0x27] @ e @ [CHR 0x27]
             @ '' AND '' @ ''balance > 0''
             @ ''\<newline>    ORDER BY date ASC, usd_balance DESC\<newline>    LIMIT 500\<newline>  ''
       \<and> buildComparisonQuery a d1 d2 p =
           select_from @ ''address = '' @ [CHR 0x27] @ a @ [CHR 0x27] @ '' AND '' @ ''date IN (''
             @ [CHR 0x27] @ d1 @ [CHR 0x27] @ '', '' @ [CHR 0x27] @ d2 @ [CHR 0x27] @ '')''
             @ '' AND '' @ ''balance > 0''
             @ ''\<newline>    ORDER BY date ASC, usd_balance DESC\<newline>    LIMIT 100\<newline>  '')"
  using snapshot_clauses[of a d p] range_clauses[of a s e p] comparison_clauses[of a d1 d2 p]
    protocol_clause[of p _ a d s e d1 d2] no_protocol_clause[of p a d s e d1 d2]
  by blast

theorem query_builders_clauses_witness:
  "str_includes
     (buildPositionQuery ''GQRzZVLkmehJM1fnMj8e8DdhxMPmQBEGiSnSWeVeJvCc'' ''2025-12-31'' (Some ''Kamino''))
     ('' AND '' @ ''project = '' @ [CHR 0x27] @ ''kamino'' @ [CHR 0x27])
   \<and> buildPositionQuery ''GQRzZVLkmehJM1fnMj8e8DdhxMPmQBEGiSnSWeVeJvCc'' ''2025-12-31'' None =
       select_from @ ''address = '' @ [CHR 0x27] @ ''GQRzZVLkmehJM1fnMj8e8DdhxMPmQBEGiSnSWeVeJvCc''
         @ [CHR 0x27] @ '' AND '' @ ''date = '' @ [CHR 0x27] @ ''2025-12-31'' @ [CHR 0x27]
         @ '' AND '' @ ''balance > 0''
         @ ''\<newline>    ORDER BY usd_balance DESC\<newline>    LIMIT 50\<newline>  ''"
proof -
  have lower: "toLowerCase ''Kamino'' = ''kamino''"
    by code_simp
  have ne: "''Kamino'' \<noteq> []"
    by simp
  from query_builders_clauses[of "''GQRzZVLkmehJM1fnMj8e8DdhxMPmQBEGiSnSWeVeJvCc''" "''2025-12-31''"
      "Some ''Kamino''"] ne
  have "str_includes
     (buildPositionQuery ''GQRzZVLkmehJM1fnMj8e8DdhxMPmQBEGiSnSWeVeJvCc'' ''2025-12-31'' (Some ''Kamino''))
     ('' AND '' @ ''project = '' @ [CHR 0x27] @ toLowerCase ''Kamino'' @ [CHR 0x27])"
    by blast
  moreover
  from query_builders_clauses[of "''GQRzZVLkmehJM1fnMj8e8DdhxMPmQBEGiSnSWeVeJvCc''" "''2025-12-31''" None]
  have "buildPositionQuery ''GQRzZVLkmehJM1fnMj8e8DdhxMPmQBEGiSnSWeVeJvCc'' ''2025-12-31'' None =
       select_from @ ''address = '' @ [CHR 0x27] @ ''GQRzZVLkmehJM1fnMj8e8DdhxMPmQBEGiSnSWeVeJvCc''
         @ [CHR 0x27] @ '' AND '' @ ''date = '' @ [CHR 0x27] @ ''2025-12-31'' @ [CHR 0x27]
         @ '' AND '' @ ''balance > 0''
         @ ''\<newline>    ORDER BY usd_balance DESC\<newline>    LIMIT 50\<newline>  ''"
    by blast
  ultimately show ?thesis
    unfolding lower by (rule conjI)
qed


section \<open>Properties of the deterministic parser\<close>

lemma match_atoms_length: "match_atoms ps s \<Longrightarrow> length ps \<le> length s"
  by (induction ps s rule: match_atoms.induct) auto

lemma date_at_length: "date_at s \<Longrightarrow> 10 \<le> length s"
  unfolding date_at_def by (drule match_atoms_length) simp

text \<open>
  The first element of the scan is the date at the leftmost position at which the pattern
  matches, and the scan goes on right after it.
\<close>

lemma match_dates_head:
  "match_dates s = d # ds \<Longrightarrow>
     \<exists>i. (\<forall>k<i. \<not> date_at (drop k s)) \<and> date_at (drop i s) \<and> d = take 10 (drop i s)
         \<and> ds = match_dates (drop (i + 10) s)"
proof (induction s rule: match_dates.induct)
  case 1
  then show ?case by simp
next
  case (2 c cs)
  show ?case
  proof (cases "date_at (c # cs)")
    case True
    with "2.prems" have "d = take 10 (c # cs)" "ds = match_dates (drop 10 (c # cs))"
      by simp_all
    with True show ?thesis
      by (intro exI[of _ 0]) simp
  next
    case False
    with "2.prems" have "match_dates cs = d # ds" by simp
    from "2.IH"(2)[OF False this] obtain i where
      i: "\<forall>k<i. \<not> date_at (drop k cs)" "date_at (drop i cs)" "d = take 10 (drop i cs)"
         "ds = match_dates (drop (i + 10) cs)"
      by blast
    have "\<forall>k<Suc i. \<not> date_at (drop k (c # cs))"
    proof (intro allI impI)
      fix k assume "k < Suc i"
      then show "\<not> date_at (drop k (c # cs))"
        using False i(1) by (cases k) auto
    qed
    moreover have "ds = match_dates (drop (Suc i + 10) (c # cs))"
      using i(4) by (simp only: add_Suc drop_Suc_Cons)
    moreover have "date_at (drop (Suc i) (c # cs))" "d = take 10 (drop (Suc i) (c # cs))"
      using i(2,3) by simp_all
    ultimately show ?thesis
      by blast
  qed
qed

lemma match_address_Some:
  "match_address s = Some a \<Longrightarrow> 32 \<le> length a \<and> length a \<le> 44 \<and> (\<forall>c\<in>set a. base58 c)"
proof (induction s)
  case Nil
  then show ?case by simp
next
  case (Cons c cs)
  define run where "run = takeWhile base58 (c # cs)"
  have eq: "match_address (c # cs) = (if 32 \<le> length run then Some (take 44 run) else match_address cs)"
    unfolding run_def by (simp only: match_address.simps Let_def)
  show ?case
  proof (cases "32 \<le> length run")
    case True
    with Cons.prems eq have a: "a = take 44 run"
      by simp
    have "\<forall>x\<in>set run. base58 x"
      unfolding run_def by (meson set_takeWhileD)
    then have "\<forall>x\<in>set (take 44 run). base58 x"
      by (meson in_set_takeD)
    moreover have "length (take 44 run) = min (length run) 44"
      by (rule length_take)
    ultimately show ?thesis
      using True a by (simp only: min_def split: if_splits) auto
  next
    case False
    with Cons.prems eq have "match_address cs = Some a"
      by simp
    then show ?thesis by (rule Cons.IH)
  qed
qed

text \<open>The character classes and the date pattern, in terms of the written text.\<close>

lemma digit_set: "digit c = (c \<in> set ''0123456789'')"
proof -
  have "digit c = (of_char c \<in> {48..(57::nat)})"
    by (simp add: digit_def less_eq_char_def)
  also have "\<dots> = (of_char c \<in> (of_char ` set ''0123456789'' :: nat set))"
    by (simp only: set_simps image_insert image_empty of_char_Char) (simp, arith)
  also have "\<dots> = (c \<in> set ''0123456789'')"
    by (rule inj_image_mem_iff) (simp add: inj_on_def)
  finally show ?thesis .
qed

lemma base58_set: "base58 c = (c \<in> set base58_alphabet)"
proof -
  have "base58 c = (of_char c \<in> ({49..57} \<union> {65..72} \<union> {74..78} \<union> {80..90} \<union> {97..107} \<union> {109..(122::nat)}))"
    by (simp add: base58_def less_eq_char_def)
  also have "\<dots> = (of_char c \<in> (of_char ` set base58_alphabet :: nat set))"
    unfolding base58_alphabet_def
    by (simp only: set_simps image_insert image_empty of_char_Char) (simp, arith)
  also have "\<dots> = (c \<in> set base58_alphabet)"
    by (rule inj_image_mem_iff) (simp add: inj_on_def)
  finally show ?thesis .
qed

lemma run_at_takeWhile: "run_at msg k = takeWhile base58 (drop k msg)"
proof -
  have "base58 = (\<lambda>c. c \<in> set base58_alphabet)"
    by (rule ext) (rule base58_set)
  then show ?thesis
    unfolding run_at_def by simp
qed

lemma date_at_is_date: "date_at s = is_date (take 10 s)"
proof (cases "10 \<le> length s")
  case False
  then have "\<not> date_at s"
    by (auto dest: date_at_length)
  moreover from False have "\<not> is_date (take 10 s)"
    by (simp add: is_date_def)
  ultimately show ?thesis by simp
next
  case True
  then obtain c0 c1 c2 c3 c4 c5 c6 c7 c8 c9 rest where
    s: "s = c0 # c1 # c2 # c3 # c4 # c5 # c6 # c7 # c8 # c9 # rest"
    by (auto simp: numeral_eq_Suc Suc_le_length_iff)
  define D where "D = set ''0123456789''"
  have d: "digit c = (c \<in> D)" for c
    unfolding D_def by (rule digit_set)
  have "date_at s = (c0 \<in> D \<and> c1 \<in> D \<and> c2 \<in> D \<and> c3 \<in> D \<and> c4 = CHR ''-'' \<and> c5 \<in> D \<and> c6 \<in> D
                     \<and> c7 = CHR ''-'' \<and> c8 \<in> D \<and> c9 \<in> D)"
    unfolding s date_at_def by (simp only: match_atoms.simps d dash_def simp_thms)
  moreover have "take 10 s = [c0, c1, c2, c3, c4, c5, c6, c7, c8, c9]"
    unfolding s by simp
  moreover have "is_date [c0, c1, c2, c3, c4, c5, c6, c7, c8, c9]
                   = (c0 \<in> D \<and> c1 \<in> D \<and> c2 \<in> D \<and> c3 \<in> D \<and> c4 = CHR ''-'' \<and> c5 \<in> D \<and> c6 \<in> D
                     \<and> c7 = CHR ''-'' \<and> c8 \<in> D \<and> c9 \<in> D)"
    unfolding is_date_def D_def[symmetric] by (simp add: numeral_eq_Suc) blast
  ultimately show ?thesis
    by simp
qed

lemma date_at_position: "date_at (drop i msg) = date_position msg i"
  unfolding date_position_def by (rule date_at_is_date)

text \<open>
  The scan for dates finds the date at the leftmost position at which one is written and
  goes on right after it.
\<close>

lemma match_dates_first:
  "date_at (drop i s) \<Longrightarrow> (\<forall>k<i. \<not> date_at (drop k s)) \<Longrightarrow>
     match_dates s = take 10 (drop i s) # match_dates (drop (i + 10) s)"
proof (induction i arbitrary: s)
  case 0
  then have "date_at s" by simp
  then have "s \<noteq> []" by (auto dest: date_at_length)
  then obtain c cs where s: "s = c # cs" by (cases s) auto
  with \<open>date_at s\<close> show ?case by simp
next
  case (Suc i)
  from Suc.prems(2) have "\<not> date_at (drop 0 s)" by blast
  then have no: "\<not> date_at s" by simp
  from Suc.prems(1) have "10 \<le> length (drop (Suc i) s)" by (rule date_at_length)
  then have "s \<noteq> []" by auto
  then obtain c cs where s: "s = c # cs" by (cases s) auto
  from Suc.prems(1) have at: "date_at (drop i cs)" by (simp add: s)
  have "\<forall>k<i. \<not> date_at (drop k cs)"
  proof (intro allI impI)
    fix k assume "k < i"
    then have "Suc k < Suc i" by simp
    with Suc.prems(2) have "\<not> date_at (drop (Suc k) s)" by blast
    then show "\<not> date_at (drop k cs)" by (simp add: s)
  qed
  from Suc.IH[OF at this] have "match_dates cs = take 10 (drop i cs) # match_dates (drop (i + 10) cs)" .
  moreover have "match_dates s = match_dates cs"
    using no by (simp add: s)
  moreover have "drop (Suc i + 10) s = drop (i + 10) cs"
    unfolding s by (simp only: add_Suc drop_Suc_Cons)
  moreover have "drop (Suc i) s = drop i cs"
    by (simp add: s)
  ultimately show ?case by simp
qed

text \<open>
  The scan for the address finds the stretch of base58 characters at the leftmost position
  at which at least 32 of them follow each other, and takes up to 44 of them.
\<close>

lemma match_address_first:
  "32 \<le> length (takeWhile base58 (drop k s)) \<Longrightarrow>
   (\<forall>k'<k. length (takeWhile base58 (drop k' s)) < 32) \<Longrightarrow>
     match_address s = Some (take 44 (takeWhile base58 (drop k s)))"
proof (induction k arbitrary: s)
  case 0
  then have long: "32 \<le> length (takeWhile base58 s)" by simp
  then have "s \<noteq> []" by auto
  then obtain c cs where s: "s = c # cs" by (cases s) auto
  define run where "run = takeWhile base58 (c # cs)"
  have "match_address (c # cs) = (if 32 \<le> length run then Some (take 44 run) else match_address cs)"
    unfolding run_def by (simp only: match_address.simps Let_def)
  moreover have "32 \<le> length run"
    using long unfolding run_def s .
  ultimately show ?case
    unfolding s run_def by simp
next
  case (Suc k)
  from Suc.prems(2) have "length (takeWhile base58 (drop 0 s)) < 32" by blast
  then have short: "\<not> 32 \<le> length (takeWhile base58 s)" by simp
  from Suc.prems(1) have "drop (Suc k) s \<noteq> []" by auto
  then have "s \<noteq> []" by auto
  then obtain c cs where s: "s = c # cs" by (cases s) auto
  define run where "run = takeWhile base58 (c # cs)"
  have "match_address (c # cs) = (if 32 \<le> length run then Some (take 44 run) else match_address cs)"
    unfolding run_def by (simp only: match_address.simps Let_def)
  moreover have "\<not> 32 \<le> length run"
    using short unfolding run_def s .
  ultimately have step: "match_address s = match_address cs"
    unfolding s by simp
  from Suc.prems(1) have long: "32 \<le> length (takeWhile base58 (drop k cs))"
    by (simp add: s)
  have "\<forall>k'<k. length (takeWhile base58 (drop k' cs)) < 32"
  proof (intro allI impI)
    fix k' assume "k' < k"
    then have "Suc k' < Suc k" by simp
    with Suc.prems(2) have "length (takeWhile base58 (drop (Suc k') s)) < 32" by blast
    then show "length (takeWhile base58 (drop k' cs)) < 32" by (simp add: s)
  qed
  from Suc.IH[OF long this] step show ?case
    by (simp add: s)
qed

text \<open>A stretch of base58 characters in the utterance is part of the run at its position.\<close>

lemma run_at_stretch:
  assumes "msg = pre @ a @ post" and "set a \<subseteq> set base58_alphabet"
  shows "length a \<le> length (run_at msg (length pre))"
proof -
  have "drop (length pre) msg = a @ post"
    using assms(1) by simp
  moreover have "\<forall>c\<in>set a. base58 c"
    using assms(2) by (auto simp: base58_set)
  ultimately have "takeWhile base58 (drop (length pre) msg) = a @ takeWhile base58 post"
    by (simp add: takeWhile_append2)
  then show ?thesis
    unfolding run_at_takeWhile by simp
qed

lemma regexParse_comparison_eq:
  assumes addr: "match_address msg = Some a" and ne: "a \<noteq> []"
    and trigger: "str_includes (toLowerCase msg) ''compare'' \<or> str_includes (toLowerCase msg) ''vs''
                  \<or> str_includes (toLowerCase msg) ''versus''"
    and md: "match_dates msg = d1 # d2 # ds"
    and nohelp: "\<not> (str_includes (toLowerCase msg) ''help''
                    \<or> str_includes (toLowerCase msg) ''what can you''
                    \<or> toLowerCase msg = ''hi'' \<or> toLowerCase msg = ''hello'')"
  shows "regexParse msg =
           (object_of_type ''comparison'')\<lparr>address := Some a, date1 := Some d1, date2 := Some d2\<rparr>"
proof -
  have h: "(str_includes (toLowerCase msg) ''help''
                    \<or> str_includes (toLowerCase msg) ''what can you''
                    \<or> toLowerCase msg = ''hi'' \<or> toLowerCase msg = ''hello'') = False"
    using nohelp by blast
  have t: "(str_includes (toLowerCase msg) ''compare'' \<or> str_includes (toLowerCase msg) ''vs''
                  \<or> str_includes (toLowerCase msg) ''versus'') = True"
    using trigger by blast
  have f: "falsy (Some a) = False" using ne by simp
  have l: "(2 \<le> length (d1 # d2 # ds)) = True" by simp
  have i: "at_index (d1 # d2 # ds) 0 = Some d1" "at_index (d1 # d2 # ds) 1 = Some d2"
    by (simp_all add: at_index_def)
  show ?thesis
    unfolding regexParse_def Let_def addr md h t f l i
    by (simp only: if_False if_True simp_thms)
qed

text \<open>
  C9. For every input string \<open>regexParse\<close> returns (it is a total function: no operation
  of its body can throw on a string), the kind of the result is one of the five known
  kinds, and a snapshot, range or comparison result carries a non-empty address and its
  one or two dates.
\<close>

theorem regexParse_total_kinds:
  "type (regexParse msg) \<in> {''snapshot'', ''range'', ''comparison'', ''help'', ''error''}
   \<and> (type (regexParse msg) = ''snapshot'' \<longrightarrow>
        (\<exists>a d. ParsedQuery.address (regexParse msg) = Some a \<and> a \<noteq> []
               \<and> ParsedQuery.date (regexParse msg) = Some d))
   \<and> (type (regexParse msg) = ''range'' \<longrightarrow>
        (\<exists>a d e. ParsedQuery.address (regexParse msg) = Some a \<and> a \<noteq> []
               \<and> start_date (regexParse msg) = Some d \<and> end_date (regexParse msg) = Some e))
   \<and> (type (regexParse msg) = ''comparison'' \<longrightarrow>
        (\<exists>a d e. ParsedQuery.address (regexParse msg) = Some a \<and> a \<noteq> []
               \<and> date1 (regexParse msg) = Some d \<and> date2 (regexParse msg) = Some e))"
  by (cases "match_address msg")
     (simp_all add: regexParse_def Let_def object_of_type_def at_index_def)

theorem regexParse_total_kinds_witness:
  "type (regexParse example_snapshot) = ''snapshot''
   \<and> (\<exists>a d. ParsedQuery.address (regexParse example_snapshot) = Some a \<and> a \<noteq> []
         \<and> ParsedQuery.date (regexParse example_snapshot) = Some d)
   \<and> type (regexParse example_range) = ''range''
   \<and> (\<exists>a d e. ParsedQuery.address (regexParse example_range) = Some a \<and> a \<noteq> []
         \<and> start_date (regexParse example_range) = Some d
         \<and> end_date (regexParse example_range) = Some e)
   \<and> type (regexParse example_comparison) = ''comparison''
   \<and> (\<exists>a d e. ParsedQuery.address (regexParse example_comparison) = Some a \<and> a \<noteq> []
         \<and> date1 (regexParse example_comparison) = Some d
         \<and> date2 (regexParse example_comparison) = Some e)"
proof -
  have s: "type (regexParse example_snapshot) = ''snapshot''"
    by code_simp
  have r: "type (regexParse example_range) = ''range''"
    by code_simp
  have c: "type (regexParse example_comparison) = ''comparison''"
    by code_simp
  note s' = regexParse_total_kinds[of example_snapshot, THEN conjunct2, THEN conjunct1, THEN mp, OF s]
  note r' = regexParse_total_kinds[of example_range, THEN conjunct2, THEN conjunct2,
      THEN conjunct1, THEN mp, OF r]
  note c' = regexParse_total_kinds[of example_comparison, THEN conjunct2, THEN conjunct2,
      THEN conjunct2, THEN mp, OF c]
  show ?thesis
    by (intro conjI s s' r r' c c')
qed

text \<open>
  C4. Let the utterance hold a stretch \<open>a\<close> of at least 32 base58 characters, a comparison
  trigger and no help trigger (both are looked for in the lower-cased utterance), and two
  dates written at positions \<open>i\<^sub>0\<close> and \<open>j\<^sub>0\<close> that do not overlap. Then \<open>regexParse\<close> returns a
  comparison: its kind is \<open>comparison\<close>; its address is the stretch of base58 characters at
  the leftmost position at which 32 of them follow each other, up to its 44th character;
  \<open>date1\<close> is the date at the leftmost position \<open>i\<close> at which a date is written and \<open>date2\<close>
  is the date at the leftmost position \<open>j\<close> after the end of the first at which a date is
  written: the order of appearance, whatever the chronological order of the two dates.
  The other properties of the result are absent.
\<close>

theorem regexParse_comparison_order:
  assumes address: "msg = pre @ a @ post" "32 \<le> length a" "set a \<subseteq> set base58_alphabet"
    and dates: "date_position msg i0" "date_position msg j0" "i0 + 10 \<le> j0"
    and trigger: "str_includes (toLowerCase msg) ''compare'' \<or> str_includes (toLowerCase msg) ''vs''
                  \<or> str_includes (toLowerCase msg) ''versus''"
    and nohelp: "\<not> (str_includes (toLowerCase msg) ''help''
                    \<or> str_includes (toLowerCase msg) ''what can you''
                    \<or> toLowerCase msg = ''hi'' \<or> toLowerCase msg = ''hello'')"
  shows "type (regexParse msg) = ''comparison''
       \<and> (\<exists>k. k \<le> length pre \<and> 32 \<le> length (run_at msg k)
              \<and> (\<forall>k'<k. length (run_at msg k') < 32)
              \<and> ParsedQuery.address (regexParse msg) = Some (take 44 (run_at msg k)))
       \<and> (\<exists>i j. i \<le> i0 \<and> i + 10 \<le> j \<and> j \<le> j0
              \<and> date_position msg i \<and> date_position msg j
              \<and> (\<forall>k<i. \<not> date_position msg k)
              \<and> (\<forall>k. i + 10 \<le> k \<and> k < j \<longrightarrow> \<not> date_position msg k)
              \<and> date1 (regexParse msg) = Some (take 10 (drop i msg))
              \<and> date2 (regexParse msg) = Some (take 10 (drop j msg)))
       \<and> ParsedQuery.date (regexParse msg) = None \<and> start_date (regexParse msg) = None
       \<and> end_date (regexParse msg) = None \<and> ParsedQuery.protocol (regexParse msg) = None
       \<and> message (regexParse msg) = None"
proof -
  \<comment> \<open>the address\<close>
  define long where "long k = (32 \<le> length (run_at msg k))" for k
  have "long (length pre)"
    unfolding long_def using run_at_stretch[OF address(1,3)] address(2) by simp
  then have ex: "\<exists>k. long k" ..
  define k where "k = (LEAST k. long k)"
  have k: "long k"
    unfolding k_def using ex by (rule LeastI_ex)
  have k_le: "k \<le> length pre"
    unfolding k_def using \<open>long (length pre)\<close> by (rule Least_le)
  have k_min: "\<forall>k'<k. length (run_at msg k') < 32"
  proof (intro allI impI)
    fix k' assume "k' < k"
    then have "\<not> long k'" unfolding k_def by (rule not_less_Least)
    then show "length (run_at msg k') < 32" unfolding long_def by simp
  qed
  have addr: "match_address msg = Some (take 44 (run_at msg k))"
    using k k_min unfolding long_def run_at_takeWhile by (rule match_address_first)
  have ne: "take 44 (run_at msg k) \<noteq> []"
    using k unfolding long_def by auto
  \<comment> \<open>the first date\<close>
  define i where "i = (LEAST i. date_position msg i)"
  have i: "date_position msg i"
    unfolding i_def using dates(1) by (rule LeastI)
  have i_le: "i \<le> i0"
    unfolding i_def using dates(1) by (rule Least_le)
  have i_min: "\<forall>k<i. \<not> date_position msg k"
  proof (intro allI impI)
    fix k assume "k < i"
    then show "\<not> date_position msg k" unfolding i_def by (rule not_less_Least)
  qed
  \<comment> \<open>the second date\<close>
  define later where "later j = (i + 10 \<le> j \<and> date_position msg j)" for j
  have "later j0"
    unfolding later_def using i_le dates(2,3) by simp
  define j where "j = (LEAST j. later j)"
  have j: "later j"
    unfolding j_def using \<open>later j0\<close> by (rule LeastI)
  have j_le: "j \<le> j0"
    unfolding j_def using \<open>later j0\<close> by (rule Least_le)
  have j_min: "\<forall>k. i + 10 \<le> k \<and> k < j \<longrightarrow> \<not> date_position msg k"
  proof (intro allI impI)
    fix k assume k: "i + 10 \<le> k \<and> k < j"
    then have "\<not> later k" unfolding j_def by (intro not_less_Least) simp
    with k show "\<not> date_position msg k" unfolding later_def by simp
  qed
  define j' where "j' = j - (i + 10)"
  have jj': "j = j' + (i + 10)"
    unfolding j'_def using j unfolding later_def by simp
  have dj: "drop j' (drop (i + 10) msg) = drop j msg"
    by (simp add: jj')
  have first: "match_dates msg = take 10 (drop i msg) # match_dates (drop (i + 10) msg)"
    using i i_min unfolding date_at_position[symmetric] by (rule match_dates_first)
  have "date_at (drop j' (drop (i + 10) msg))"
    unfolding dj date_at_position using j unfolding later_def by simp
  moreover have "\<forall>n<j'. \<not> date_at (drop n (drop (i + 10) msg))"
  proof (intro allI impI)
    fix n assume "n < j'"
    then have "i + 10 \<le> n + (i + 10) \<and> n + (i + 10) < j" unfolding jj' by simp
    with j_min have "\<not> date_position msg (n + (i + 10))" by blast
    then show "\<not> date_at (drop n (drop (i + 10) msg))"
      unfolding date_at_position[symmetric] by simp
  qed
  ultimately have "match_dates (drop (i + 10) msg)
      = take 10 (drop j' (drop (i + 10) msg)) # match_dates (drop (j' + 10) (drop (i + 10) msg))"
    by (rule match_dates_first)
  with first have md: "match_dates msg
      = take 10 (drop i msg) # take 10 (drop j msg) # match_dates (drop (j' + 10) (drop (i + 10) msg))"
    unfolding dj by simp
  have eq: "regexParse msg =
          (object_of_type ''comparison'')
            \<lparr>address := Some (take 44 (run_at msg k)), date1 := Some (take 10 (drop i msg)),
             date2 := Some (take 10 (drop j msg))\<rparr>"
    using addr ne trigger md nohelp by (rule regexParse_comparison_eq)
  have "type (regexParse msg) = ''comparison''"
    unfolding eq object_of_type_def by simp
  moreover have "ParsedQuery.address (regexParse msg) = Some (take 44 (run_at msg k))"
    unfolding eq object_of_type_def by simp
  moreover have "date1 (regexParse msg) = Some (take 10 (drop i msg))"
      "date2 (regexParse msg) = Some (take 10 (drop j msg))"
    unfolding eq object_of_type_def by simp_all
  moreover have "ParsedQuery.date (regexParse msg) = None" "start_date (regexParse msg) = None"
      "end_date (regexParse msg) = None" "ParsedQuery.protocol (regexParse msg) = None"
      "message (regexParse msg) = None"
    unfolding eq object_of_type_def by simp_all
  moreover have "i + 10 \<le> j"
    using j unfolding later_def by simp
  moreover have "date_position msg j"
    using j unfolding later_def by simp
  ultimately show ?thesis
    using k k_le k_min i i_le i_min j_le j_min unfolding long_def by blast
qed

text \<open>
  The utterance of the witness has its dates in reverse chronological order: \<open>date1\<close> is
  the later date.
\<close>

theorem regexParse_comparison_order_witness:
  "(type (regexParse example_reversed) = ''comparison''
       \<and> (\<exists>k. k \<le> length ''Compare '' \<and> 32 \<le> length (run_at example_reversed k)
              \<and> (\<forall>k'<k. length (run_at example_reversed k') < 32)
              \<and> ParsedQuery.address (regexParse example_reversed)
                  = Some (take 44 (run_at example_reversed k)))
       \<and> (\<exists>i j. i \<le> 56 \<and> i + 10 \<le> j \<and> j \<le> 70
              \<and> date_position example_reversed i \<and> date_position example_reversed j
              \<and> (\<forall>k<i. \<not> date_position example_reversed k)
              \<and> (\<forall>k. i + 10 \<le> k \<and> k < j \<longrightarrow> \<not> date_position example_reversed k)
              \<and> date1 (regexParse example_reversed) = Some (take 10 (drop i example_reversed))
              \<and> date2 (regexParse example_reversed) = Some (take 10 (drop j example_reversed)))
       \<and> ParsedQuery.date (regexParse example_reversed) = None
       \<and> start_date (regexParse example_reversed) = None
       \<and> end_date (regexParse example_reversed) = None
       \<and> ParsedQuery.protocol (regexParse example_reversed) = None
       \<and> message (regexParse example_reversed) = None)
   \<and> ParsedQuery.address (regexParse example_reversed)
       = Some ''GQRzZVLkmehJM1fnMj8e8DdhxMPmQBEGiSnSWeVeJvCc''
   \<and> date1 (regexParse example_reversed) = Some ''2025-12-31''
   \<and> date2 (regexParse example_reversed) = Some ''2025-09-30''"
proof -
  have pre: "example_reversed = ''Compare '' @ ''GQRzZVLkmehJM1fnMj8e8DdhxMPmQBEGiSnSWeVeJvCc''
            @ '' on 2025-12-31 vs 2025-09-30''"
    by code_simp
  have long: "32 \<le> length ''GQRzZVLkmehJM1fnMj8e8DdhxMPmQBEGiSnSWeVeJvCc''"
    by code_simp
  have alphabet: "set ''GQRzZVLkmehJM1fnMj8e8DdhxMPmQBEGiSnSWeVeJvCc'' \<subseteq> set base58_alphabet"
    by code_simp
  have d1: "date_position example_reversed 56"
    by code_simp
  have d2: "date_position example_reversed 70"
    by code_simp
  have apart: "56 + 10 \<le> (70::nat)"
    by simp
  have trigger: "str_includes (toLowerCase example_reversed) ''compare''
        \<or> str_includes (toLowerCase example_reversed) ''vs''
        \<or> str_includes (toLowerCase example_reversed) ''versus''"
    by code_simp
  have nohelp: "\<not> (str_includes (toLowerCase example_reversed) ''help''
        \<or> str_includes (toLowerCase example_reversed) ''what can you''
        \<or> toLowerCase example_reversed = ''hi''
        \<or> toLowerCase example_reversed = ''hello'')"
    by code_simp
  note main = regexParse_comparison_order[OF pre long alphabet d1 d2 apart trigger nohelp]
  have concrete: "ParsedQuery.address (regexParse example_reversed)
       = Some ''GQRzZVLkmehJM1fnMj8e8DdhxMPmQBEGiSnSWeVeJvCc''
     \<and> date1 (regexParse example_reversed) = Some ''2025-12-31''
     \<and> date2 (regexParse example_reversed) = Some ''2025-09-30''"
    by code_simp
  from main concrete show ?thesis
    by (rule conjI)
qed

section \<open>Properties of the number formatting\<close>

lemma digit_digit_char: "d < 10 \<Longrightarrow> digit (digit_char d)"
proof -
  assume "d < 10"
  then have "d \<in> {0, 1, 2, 3, 4, 5, 6, 7, 8, 9}" by auto
  then show ?thesis
    by (auto simp: digit_def digit_char_def less_eq_char_def)
qed

lemma not_digit_point: "\<not> digit (CHR ''.'')" "\<not> digit (CHR ''-'')"
  by (simp_all add: digit_def less_eq_char_def)

lemma digit_zero: "digit (CHR ''0'')"
  by (simp add: digit_def)

lemma decimal_digits: "list_all digit (decimal n) \<and> decimal n \<noteq> []"
proof (induction n rule: decimal.induct)
  case (1 n)
  show ?case
  proof (cases "n < 10")
    case True
    then show ?thesis by (subst (1 2) decimal.simps) (simp add: digit_digit_char)
  next
    case False
    with 1 show ?thesis by (subst (1 2) decimal.simps) (simp add: digit_digit_char)
  qed
qed

lemma value_digit_char: "d < 10 \<Longrightarrow> of_char (digit_char d) - 48 = d"
proof -
  assume "d < 10"
  then have "d \<in> {0, 1, 2, 3, 4, 5, 6, 7, 8, 9}" by auto
  then show ?thesis
    by (auto simp: digit_char_def)
qed

lemma digits_value_snoc: "digits_value (ds @ [c]) = 10 * digits_value ds + (of_char c - 48)"
  by (simp add: digits_value_def)

lemma digits_value_decimal: "digits_value (decimal n) = n"
proof (induction n rule: decimal.induct)
  case (1 n)
  show ?case
  proof (cases "n < 10")
    case True
    then show ?thesis by (subst decimal.simps) (simp add: digits_value_def value_digit_char)
  next
    case False
    with 1 show ?thesis
      by (subst decimal.simps) (simp add: digits_value_snoc value_digit_char)
  qed
qed

lemma digits_value_zeros: "digits_value (replicate k (CHR ''0'') @ ds) = digits_value ds"
proof -
  have "foldl (\<lambda>n c. 10 * n + (of_char c - 48)) 0 (replicate k (CHR ''0'')) = (0::nat)"
  proof (induction k)
    case 0
    show ?case by simp
  next
    case (Suc k)
    have "replicate (Suc k) (CHR ''0'') = replicate k (CHR ''0'') @ [CHR ''0'']"
      by (simp add: replicate_append_same)
    with Suc show ?case by (simp del: replicate_Suc replicate.simps)
  qed
  then show ?thesis by (simp add: digits_value_def)
qed


lemma fixed_notation_shape:
  assumes "f \<noteq> 0"
  shows "\<exists>whole fraction.
           fixed_notation f x = (if x < 0 then ''-'' else []) @ whole @ ''.'' @ fraction
           \<and> whole \<noteq> [] \<and> list_all digit whole \<and> length fraction = f \<and> list_all digit fraction
           \<and> digits_value (whole @ fraction) = nat \<lfloor>\<bar>x\<bar> * 10 ^ f + 1 / 2\<rfloor>"
proof -
  define n where "n = nat \<lfloor>\<bar>x\<bar> * 10 ^ f + 1 / 2\<rfloor>"
  define m where "m = (if length (decimal n) \<le> f
      then replicate (f + 1 - length (decimal n)) (CHR ''0'') @ decimal n else decimal n)"
  have tf: "fixed_notation f x = (if x < 0 then ''-'' else []) @ take (length m - f) m @ ''.'' @ drop (length m - f) m"
    using assms unfolding fixed_notation_def Let_def m_def n_def by simp
  have len: "f < length m"
    unfolding m_def by auto
  have dig: "list_all digit m"
    unfolding m_def using decimal_digits[of n] by (simp add: list_all_iff digit_zero)
  have val: "digits_value m = n"
    unfolding m_def by (simp add: digits_value_zeros digits_value_decimal)
  have "length (take (length m - f) m) = length m - f"
    by simp
  with len have "length (take (length m - f) m) \<noteq> 0"
    by arith
  then have "take (length m - f) m \<noteq> []"
    by (metis list.size(3))
  moreover have "list_all digit (take (length m - f) m)" "list_all digit (drop (length m - f) m)"
    using dig by (auto simp: list_all_iff dest: in_set_takeD in_set_dropD)
  moreover have "length (drop (length m - f) m) = f"
    using len by simp
  moreover have "digits_value (take (length m - f) m @ drop (length m - f) m) = n"
    using val by simp
  ultimately show ?thesis
    unfolding n_def[symmetric] using tf by blast
qed

lemma fixed_point_unsigned:
  assumes "t \<noteq> []" "hd t \<noteq> CHR ''-''" "takeWhile digit t \<noteq> []"
    and "case dropWhile digit t of [] \<Rightarrow> False
         | c # fraction \<Rightarrow> c = CHR ''.'' \<and> length fraction = f \<and> list_all digit fraction"
  shows "fixed_point f t"
  using assms unfolding fixed_point_def Let_def by (cases t) auto

lemma fixed_point_signed:
  assumes "takeWhile digit t \<noteq> []"
    and "case dropWhile digit t of [] \<Rightarrow> False
         | c # fraction \<Rightarrow> c = CHR ''.'' \<and> length fraction = f \<and> list_all digit fraction"
  shows "fixed_point f (CHR ''-'' # t)"
  using assms unfolding fixed_point_def Let_def by simp

lemma fixed_point_notation: "f \<noteq> 0 \<Longrightarrow> fixed_point f (fixed_notation f x)"
proof -
  assume "f \<noteq> 0"
  from fixed_notation_shape[OF this, of x] obtain whole fraction where
    tf: "fixed_notation f x = (if x < 0 then ''-'' else []) @ whole @ ''.'' @ fraction"
    and w: "whole \<noteq> []" "list_all digit whole" and fr: "length fraction = f" "list_all digit fraction"
    by blast
  define t where "t = whole @ ''.'' @ fraction"
  from w have "digit (hd whole)"
    by (cases whole) auto
  then have "hd whole \<noteq> CHR ''-''"
    using not_digit_point(2) by auto
  with w(1) have ht: "t \<noteq> []" "hd t \<noteq> CHR ''-''"
    unfolding t_def by simp_all
  have tw: "takeWhile digit t = whole"
    unfolding t_def using w(2) by (simp add: list_all_iff takeWhile_append2 not_digit_point)
  have dw: "dropWhile digit t = CHR ''.'' # fraction"
    unfolding t_def using w(2) by (simp add: list_all_iff dropWhile_append2 not_digit_point)
  have body: "takeWhile digit t \<noteq> []"
    "case dropWhile digit t of [] \<Rightarrow> False
     | c # fraction \<Rightarrow> c = CHR ''.'' \<and> length fraction = f \<and> list_all digit fraction"
    unfolding tw dw using w(1) fr by simp_all
  show ?thesis
  proof (cases "x < 0")
    case True
    with tf have "fixed_notation f x = CHR ''-'' # t" by (simp add: t_def)
    then show ?thesis
      using fixed_point_signed[OF body] by simp
  next
    case False
    with tf have "fixed_notation f x = t" by (simp add: t_def)
    then show ?thesis
      using fixed_point_unsigned[OF ht body] by simp
  qed
qed

lemma fixed_value_notation:
  assumes "f \<noteq> 0"
  shows "fixed_value f (fixed_notation f x) =
           (if x < 0 then - 1 else 1) * real (nat \<lfloor>\<bar>x\<bar> * 10 ^ f + 1 / 2\<rfloor>) / 10 ^ f"
proof -
  from fixed_notation_shape[OF assms, of x] obtain whole fraction where
    tf: "fixed_notation f x = (if x < 0 then ''-'' else []) @ whole @ ''.'' @ fraction"
    and w: "whole \<noteq> []" "list_all digit whole" and fr: "list_all digit fraction"
    and v: "digits_value (whole @ fraction) = nat \<lfloor>\<bar>x\<bar> * 10 ^ f + 1 / 2\<rfloor>"
    by blast
  from w obtain c cs where wc: "whole = c # cs" and c: "digit c"
    by (cases whole) auto
  from c have cm: "c \<noteq> CHR ''-''"
    using not_digit_point(2) by auto
  have fw: "filter digit whole = whole" "filter digit fraction = fraction"
    using w(2) fr by (simp_all add: list_all_iff)
  have "filter digit (fixed_notation f x) = whole @ fraction"
    unfolding tf using fw by (simp add: not_digit_point)
  moreover have "(fixed_notation f x \<noteq> [] \<and> hd (fixed_notation f x) = CHR ''-'') = (x < 0)"
    unfolding tf using wc cm by simp
  ultimately show ?thesis
    unfolding fixed_value_def using v by simp
qed

lemma fixed_notation_rounds:
  assumes "f \<noteq> 0"
  shows "\<bar>fixed_value f (fixed_notation f x) - x\<bar> \<le> 1 / (2 * 10 ^ f)"
proof -
  define y where "y = \<bar>x\<bar> * 10 ^ f"
  define n where "n = nat \<lfloor>y + 1 / 2\<rfloor>"
  have y0: "0 \<le> y" unfolding y_def by simp
  then have "0 \<le> \<lfloor>y + 1 / 2\<rfloor>" by simp
  then have rn: "real n = of_int \<lfloor>y + 1 / 2\<rfloor>" unfolding n_def by simp
  have "real n \<le> y + 1 / 2" "y + 1 / 2 < real n + 1"
    unfolding rn by linarith+
  then have near: "\<bar>real n - y\<bar> \<le> 1 / 2" by linarith
  have p: "(0::real) < 10 ^ f" by simp
  have "fixed_value f (fixed_notation f x) - x = (if x < 0 then - 1 else 1) * (real n - y) / 10 ^ f"
    unfolding fixed_value_notation[OF assms] n_def y_def
    by (simp add: field_simps abs_if)
  then have "\<bar>fixed_value f (fixed_notation f x) - x\<bar> = \<bar>real n - y\<bar> / 10 ^ f"
    by (simp add: abs_mult)
  also have "\<dots> \<le> (1 / 2) / 10 ^ f"
    by (rule divide_right_mono) (use near p in simp_all)
  also have "\<dots> = 1 / (2 * 10 ^ f)"
    by simp
  finally show ?thesis .
qed


text \<open>Unfolding \<open>decimal\<close> on a numeral, one digit at a time.\<close>

lemma decimal_small: "n < 10 \<Longrightarrow> decimal n = [digit_char n]"
  by (subst decimal.simps) simp

lemma decimal_step: "10 \<le> n \<Longrightarrow> decimal n = decimal (n div 10) @ [digit_char (n mod 10)]"
  by (subst decimal.simps) simp

text \<open>Below \<open>10\<^sup>2\<^sup>1\<close> \<open>toFixed\<close> writes a finite number in fixed notation.\<close>

lemma toFixed_fixed: "\<bar>r\<bar> < 10 ^ 21 \<Longrightarrow> toFixed f (Fin r) = fixed_notation f r"
  by (simp add: toFixed_def)

lemma toFixed_numeral:
  assumes "f \<noteq> 0" and "\<bar>r\<bar> < 10 ^ 21"
  shows "fixed_point f (toFixed f (Fin r))
       \<and> \<bar>fixed_value f (toFixed f (Fin r)) - r\<bar> \<le> 1 / (2 * 10 ^ f)"
  unfolding toFixed_fixed[OF assms(2)]
  using fixed_point_notation[OF assms(1)] fixed_notation_rounds[OF assms(1)] by blast


section \<open>Properties of the arithmetic of doubles\<close>

lemma floor_log2_small: "n < 2 \<Longrightarrow> floor_log2 n = 0"
  by (subst floor_log2.simps) simp

lemma floor_log2_step: "2 \<le> n \<Longrightarrow> floor_log2 n = Suc (floor_log2 (n div 2))"
  by (subst floor_log2.simps) simp

lemmas number_ops =
  plus_number_def minus_number_def times_number_def divide_number_def less_number_def
  less_eq_number_def zero_number_def uminus_number_def
  num_add_def num_sub_def num_neg_def num_mul_def num_div_def num_less_def num_le_def
  signed_zero_def signed_infinity_def

lemmas rnd_eval =
  rnd_def exponent_def round_even_def pow2_def Let_def floor_log2_small floor_log2_step








text \<open>Unfolding the formatters on a given number, one digit at a time.\<close>

lemmas format_eval =
  formatUSD_def formatBalance_def toFixed_def fixed_notation_def Let_def decimal_small
  decimal_step digit_char_def number_ops rnd_eval


text \<open>
  The quotients are doubles: 1005 / 1000 is the double below 1.005 and is printed as
  \<open>1.00\<close>, and 1001050 / 1000000 is the double below 1.00105 and is printed as \<open>1.0010\<close>.
\<close>

lemma formatUSD_double_quotient:
  "formatUSD (Fin 1005) = ''$1.00K''" "formatBalance (Fin 1001050) = ''1.0010M''"
  by (simp_all add: format_eval)

















section \<open>Properties of the snapshot formatter\<close>

lemma foldl_append_fun: "foldl (\<lambda>md x. md @ f x) md0 xs = md0 @ concat (map f xs)"
  by (induction xs arbitrary: md0) simp_all

lemma foldl_plus_map: "foldl (\<lambda>total x. total + g x) a xs = foldl (+) a (map g xs)"
  by (induction xs arbitrary: a) simp_all

text \<open>
  C6. For a non-empty row set the snapshot report has one line per row, in the order of
  the rows, and its total is the sum of \<open>usd_balance\<close> over all the rows, added in doubles
  from zero in the order of the rows: rows that share a symbol each add their value.
\<close>

theorem snapshot_total_all_rows:
  assumes "rows \<noteq> []"
  shows "formatPositionTable rows =
           ''### Lending Positions for `'' @ shortAddr (PositionRow.address (hd rows)) @ ''` on ''
             @ formatDate (PositionRow.date (hd rows)) @ ''\<newline>\<newline>''
             @ ''| Token | Protocol | Balance | USD Value | Price |\<newline>''
             @ ''|-------|----------|---------|-----------|-------|\<newline>''
             @ concat (map (\<lambda>row.
                   ''| '' @ symbol row @ '' | '' @ project row @ '' ('' @ PositionRow.protocol row
                     @ '') | '' @ formatBalance (balance row) @ '' | '' @ formatUSD (usd_balance row)
                     @ '' | $'' @ toFixed 4 (usd_exchange_rate row) @ '' |\<newline>'') rows)
             @ ''\<newline>**Total Portfolio Value: ''
             @ formatUSD (foldl (+) (Fin 0) (map usd_balance rows))
             @ ''**\<newline>'' @ data_source"
proof -
  from assms obtain row0 rest where rows: "rows = row0 # rest"
    by (cases rows) auto
  have line: "position_line = (\<lambda>row.
                   ''| '' @ symbol row @ '' | '' @ project row @ '' ('' @ PositionRow.protocol row
                     @ '') | '' @ formatBalance (balance row) @ '' | '' @ formatUSD (usd_balance row)
                     @ '' | $'' @ toFixed 4 (usd_exchange_rate row) @ '' |\<newline>'')"
    by (rule ext) (simp only: position_line_def)
  have total: "foldl (\<lambda>total r. total + usd_balance r) 0 rows = foldl (+) (Fin 0) (map usd_balance rows)"
    unfolding zero_number_def by (rule foldl_plus_map)
  show ?thesis
    unfolding formatPositionTable_def Let_def total foldl_append_fun line
    unfolding rows list.case list.sel
    by (simp only: append_assoc)
qed

theorem snapshot_total_all_rows_witness:
  "duplicate_rows \<noteq> []
   \<and> map symbol duplicate_rows = [''USDC'', ''USDC'']
   \<and> map usd_balance duplicate_rows = [Fin 100, Fin 50]
   \<and> formatPositionTable duplicate_rows =
       ''### Lending Positions for `GQRz...JvCc` on 2025-12-31\<newline>\<newline>''
         @ ''| Token | Protocol | Balance | USD Value | Price |\<newline>''
         @ ''|-------|----------|---------|-----------|-------|\<newline>''
         @ ''| USDC | kamino (kvault) | 100.000000 | $100.00 | $1.0000 |\<newline>''
         @ ''| USDC | kamino (kvault) | 50.000000 | $50.00 | $1.0000 |\<newline>''
         @ ''\<newline>**Total Portfolio Value: $150.00**\<newline>'' @ data_source"
proof -
  have ne: "duplicate_rows \<noteq> []"
    by (simp add: duplicate_rows_def)
  have symbols: "map symbol duplicate_rows = [''USDC'', ''USDC'']"
    by (simp add: duplicate_rows_def example_row_def)
  have usd: "map usd_balance duplicate_rows = [Fin 100, Fin 50]"
    by (simp add: duplicate_rows_def example_row_def)
  have total: "foldl (+) (Fin 0) [Fin 100, Fin 50] = Fin 150"
    by (simp add: number_ops rnd_eval)
  have cells: "formatUSD (Fin 150) = ''$150.00''" "formatUSD (Fin 100) = ''$100.00''"
    "formatUSD (Fin 50) = ''$50.00''" "formatBalance (Fin 100) = ''100.000000''"
    "formatBalance (Fin 50) = ''50.000000''" "toFixed 4 (Fin 1) = ''1.0000''"
    by (simp_all add: format_eval)
  have head: "hd duplicate_rows = example_row ''2025-12-31'' ''USDC'' 100 100"
    by (simp add: duplicate_rows_def)
  have fields: "PositionRow.address (example_row d s b u) = ''GQRzZVLkmehJM1fnMj8e8DdhxMPmQBEGiSnSWeVeJvCc''"
    "PositionRow.date (example_row d s b u) = d" "symbol (example_row d s b u) = s"
    "project (example_row d s b u) = ''kamino''" "PositionRow.protocol (example_row d s b u) = ''kvault''"
    "balance (example_row d s b u) = Fin b" "usd_balance (example_row d s b u) = Fin u"
    "usd_exchange_rate (example_row d s b u) = Fin 1" for d s b u
    by (simp_all add: example_row_def)
  have short: "shortAddr ''GQRzZVLkmehJM1fnMj8e8DdhxMPmQBEGiSnSWeVeJvCc'' = ''GQRz...JvCc''"
    by (simp add: shortAddr_def slice_first4_def slice_last4_def)
  have day: "formatDate ''2025-12-31'' = ''2025-12-31''"
    by (simp add: formatDate_def)
  have report: "formatPositionTable duplicate_rows =
       ''### Lending Positions for `GQRz...JvCc` on 2025-12-31\<newline>\<newline>''
         @ ''| Token | Protocol | Balance | USD Value | Price |\<newline>''
         @ ''|-------|----------|---------|-----------|-------|\<newline>''
         @ ''| USDC | kamino (kvault) | 100.000000 | $100.00 | $1.0000 |\<newline>''
         @ ''| USDC | kamino (kvault) | 50.000000 | $50.00 | $1.0000 |\<newline>''
         @ ''\<newline>**Total Portfolio Value: $150.00**\<newline>'' @ data_source"
    unfolding snapshot_total_all_rows[OF ne] usd total head
    unfolding duplicate_rows_def list.map concat.simps fields cells short day
    by simp
  from ne symbols usd report show ?thesis
    by (intro conjI)
qed

text \<open>The total is a sum of doubles: rows worth 1000 and 5 have the total \<open>$1.00K\<close>.\<close>

lemma snapshot_total_thousand:
  "formatUSD (foldl (+) (Fin 0) (map usd_balance thousand_rows)) = ''$1.00K''"
proof -
  have "foldl (+) (Fin 0) (map usd_balance thousand_rows) = Fin 1005"
    by (simp add: thousand_rows_def example_row_def number_ops rnd_eval)
  then show ?thesis
    by (simp add: formatUSD_double_quotient)
qed

section \<open>Properties of the comparison formatter\<close>

lemma foldl_set_add:
  "distinct acc \<Longrightarrow> distinct (foldl set_add acc xs) \<and> set (foldl set_add acc xs) = set acc \<union> set xs"
  by (induction xs arbitrary: acc) (auto simp: set_add_def)

lemma unique_distinct: "distinct (unique xs)"
  and unique_set: "set (unique xs) = set xs"
  using foldl_set_add[of "[]" xs] by (simp_all add: unique_def)

lemma find_filter_same:
  "(\<And>x. P x \<Longrightarrow> Q x) \<Longrightarrow> find P (filter Q xs) = find P xs"
  by (induction xs) auto

text \<open>\<open>find\<close> yields the first row of the symbol.\<close>

lemma find_first_row: "find (\<lambda>r. symbol r = s) rows = first_row rows s"
  unfolding first_row_def by (induction rows) simp_all

lemma usd_or_0_first: "usd_or_0 (find (\<lambda>r. symbol r = s) rows) = first_usd rows s"
  unfolding usd_or_0_def first_usd_def find_first_row zero_number_def ..

lemma balance_or_0_first: "balance_or_0 (find (\<lambda>r. symbol r = s) rows) = first_balance rows s"
  unfolding balance_or_0_def first_balance_def find_first_row zero_number_def ..

lemma first_row_first_per_symbol: "first_row (first_per_symbol rs) s = first_row rs s"
proof (induction rs rule: first_per_symbol.induct)
  case 1
  show ?case by simp
next
  case (2 r rs)
  show ?case
  proof (cases "symbol r = s")
    case True
    then show ?thesis by (simp add: first_row_def)
  next
    case False
    then have "find (\<lambda>x. symbol x = s) (filter (\<lambda>x. symbol x \<noteq> symbol r) rs)
        = find (\<lambda>x. symbol x = s) rs"
      by (intro find_filter_same) auto
    then have "first_row (filter (\<lambda>x. symbol x \<noteq> symbol r) rs) s = first_row rs s"
      unfolding find_first_row .
    moreover have "first_row (first_per_symbol (r # rs)) s
        = first_row (first_per_symbol (filter (\<lambda>x. symbol x \<noteq> symbol r) rs)) s"
      using False by (simp add: first_row_def)
    moreover have "first_row (r # rs) s = first_row rs s"
      using False by (simp add: first_row_def)
    ultimately show ?thesis
      using 2 by simp
  qed
qed

text \<open>The line of a symbol, in terms of the first rows of the symbol on the two dates.\<close>

lemma comparison_line_first:
  "comparison_line a b s =
     ''| '' @ s @ '' | '' @ formatBalance (first_balance a s) @ '' | ''
       @ formatUSD (first_usd a s) @ '' | '' @ formatBalance (first_balance b s) @ '' | ''
       @ formatUSD (first_usd b s) @ '' | '' @ formatUSD (first_usd b s - first_usd a s)
       @ '' | ''
       @ (if Fin 0 < first_usd a s
          then toFixed 2 ((first_usd b s - first_usd a s) / first_usd a s * Fin 100) @ ''%''
          else ''N/A'')
       @ '' |\<newline>''"
  unfolding comparison_line_def Let_def percent_cell_def usd_or_0_first balance_or_0_first
    zero_number_def ..

text \<open>The loop: one line per symbol, and the two totals added up in the order of the symbols.\<close>

lemma comparison_loop_fold:
  "foldl (comparison_step a b) st L =
     \<lparr>md_so_far = md_so_far st @ concat (map (comparison_line a b) L),
      totalD1 = foldl (+) (totalD1 st) (map (first_usd a) L),
      totalD2 = foldl (+) (totalD2 st) (map (first_usd b) L)\<rparr>"
  by (induction L arbitrary: st) (simp_all add: comparison_step_def Let_def usd_or_0_first)

lemma comparison_loop_eq:
  "comparison_loop a b L md0 =
     \<lparr>md_so_far = md0 @ concat (map (comparison_line a b) L),
      totalD1 = foldl (+) (Fin 0) (map (first_usd a) L),
      totalD2 = foldl (+) (Fin 0) (map (first_usd b) L)\<rparr>"
  unfolding comparison_loop_def comparison_loop_fold by (simp add: zero_number_def)

text \<open>The loop reads the rows of a date only through the first row of each symbol.\<close>

lemma comparison_line_dedup:
  "comparison_line (first_per_symbol a) (first_per_symbol b) s = comparison_line a b s"
  unfolding comparison_line_first first_usd_def first_balance_def first_row_first_per_symbol ..

lemma comparison_loop_first:
  "comparison_loop (first_per_symbol a) (first_per_symbol b) L md0 = comparison_loop a b L md0"
proof -
  have "comparison_line (first_per_symbol a) (first_per_symbol b) = comparison_line a b"
    by (intro ext) (rule comparison_line_dedup)
  moreover have "first_usd (first_per_symbol a) = first_usd a" "first_usd (first_per_symbol b) = first_usd b"
    by (intro ext, simp add: first_usd_def first_row_first_per_symbol)+
  ultimately show ?thesis
    unfolding comparison_loop_eq by simp
qed

lemma foldl_set_add_filter:
  "x \<in> set acc \<Longrightarrow> foldl set_add acc (filter (\<lambda>y. y \<noteq> x) ys) = foldl set_add acc ys"
proof (induction ys arbitrary: acc)
  case Nil
  show ?case by simp
next
  case (Cons y ys)
  from Cons.prems have "x \<in> set (set_add acc y)"
    by (simp add: set_add_def)
  from Cons.IH[OF this] Cons.prems show ?case
    by (auto simp: set_add_def)
qed

lemma foldl_set_add_first:
  "foldl set_add acc (map symbol (first_per_symbol rs)) = foldl set_add acc (map symbol rs)"
proof (induction rs arbitrary: acc rule: first_per_symbol.induct)
  case 1
  show ?case by simp
next
  case (2 r rs)
  let ?acc = "set_add acc (symbol r)"
  have mem: "symbol r \<in> set ?acc"
    by (simp add: set_add_def)
  have "foldl set_add ?acc (map symbol (first_per_symbol (filter (\<lambda>x. symbol x \<noteq> symbol r) rs)))
      = foldl set_add ?acc (map symbol (filter (\<lambda>x. symbol x \<noteq> symbol r) rs))"
    by (rule "2.IH")
  also have "map symbol (filter (\<lambda>x. symbol x \<noteq> symbol r) rs)
      = filter (\<lambda>y. y \<noteq> symbol r) (map symbol rs)"
    by (simp add: filter_map comp_def)
  also have "foldl set_add ?acc (filter (\<lambda>y. y \<noteq> symbol r) (map symbol rs))
      = foldl set_add ?acc (map symbol rs)"
    using mem by (rule foldl_set_add_filter)
  finally show ?case by simp
qed

lemma unique_first:
  "unique (map symbol (first_per_symbol a) @ map symbol (first_per_symbol b))
     = unique (map symbol a @ map symbol b)"
  by (simp add: unique_def foldl_set_add_first)

lemma comparison_loop_dedup:
  "comparison_loop (first_per_symbol a) (first_per_symbol b)
       (unique (map symbol (first_per_symbol a) @ map symbol (first_per_symbol b))) md0
     = comparison_loop a b (unique (map symbol a @ map symbol b)) md0"
  by (simp only: unique_first comparison_loop_first)

text \<open>
  The report for a non-empty row set: the heading, the line of each symbol and the totals.
  \<open>D1\<close> and \<open>D2\<close> are the rows of the two dates and \<open>symbols\<close> are their symbols in the order
  of their first occurrence, those of the first date first.
\<close>

lemma comparison_report:
  assumes "rows \<noteq> []"
    and "D1 = filter (\<lambda>r. formatDate (PositionRow.date r) = d1) rows"
    and "D2 = filter (\<lambda>r. formatDate (PositionRow.date r) = d2) rows"
    and "symbols = unique (map symbol D1 @ map symbol D2)"
    and "T1 = foldl (+) (Fin 0) (map (first_usd D1) symbols)"
    and "T2 = foldl (+) (Fin 0) (map (first_usd D2) symbols)"
  shows "formatComparisonTable rows d1 d2 =
      ''### Position Comparison for `'' @ shortAddr (PositionRow.address (hd rows)) @ ''`: ''
        @ d1 @ '' vs '' @ d2 @ ''\<newline>\<newline>''
        @ ''| Token | Balance ('' @ d1 @ '') | USD ('' @ d1 @ '') | Balance (''
        @ d2 @ '') | USD ('' @ d2 @ '') | Change | % Change |\<newline>''
        @ ''|-------|'' @ replicate 18 (CHR ''-'') @ ''|'' @ replicate 16 (CHR ''-'')
        @ ''|'' @ replicate 18 (CHR ''-'') @ ''|'' @ replicate 16 (CHR ''-'')
        @ ''|--------|----------|\<newline>''
        @ concat (map (\<lambda>s.
            ''| '' @ s @ '' | '' @ formatBalance (first_balance D1 s) @ '' | ''
              @ formatUSD (first_usd D1 s) @ '' | '' @ formatBalance (first_balance D2 s) @ '' | ''
              @ formatUSD (first_usd D2 s) @ '' | '' @ formatUSD (first_usd D2 s - first_usd D1 s)
              @ '' | ''
              @ (if Fin 0 < first_usd D1 s
                 then toFixed 2 ((first_usd D2 s - first_usd D1 s) / first_usd D1 s * Fin 100) @ ''%''
                 else ''N/A'')
              @ '' |\<newline>'') symbols)
        @ ''\<newline>**Total Portfolio:**\<newline>''
        @ ''- '' @ d1 @ '': '' @ formatUSD T1 @ ''\<newline>''
        @ ''- '' @ d2 @ '': '' @ formatUSD T2 @ ''\<newline>''
        @ ''- Change: '' @ formatUSD (T2 - T1) @ '' (''
        @ (if Fin 0 < T1 then toFixed 2 ((T2 - T1) / T1 * Fin 100) @ ''%'' else ''N/A'')
        @ '')\<newline>''
        @ data_source"
proof -
  from assms(1) obtain r0 rest where r: "rows = r0 # rest"
    by (cases rows) auto
  have line: "comparison_line D1 D2 = (\<lambda>s.
            ''| '' @ s @ '' | '' @ formatBalance (first_balance D1 s) @ '' | ''
              @ formatUSD (first_usd D1 s) @ '' | '' @ formatBalance (first_balance D2 s) @ '' | ''
              @ formatUSD (first_usd D2 s) @ '' | '' @ formatUSD (first_usd D2 s - first_usd D1 s)
              @ '' | ''
              @ (if Fin 0 < first_usd D1 s
                 then toFixed 2 ((first_usd D2 s - first_usd D1 s) / first_usd D1 s * Fin 100) @ ''%''
                 else ''N/A'')
              @ '' |\<newline>'')"
    by (rule ext) (rule comparison_line_first)
  have pct: "percent_cell (T2 - T1) T1
      = (if Fin 0 < T1 then toFixed 2 ((T2 - T1) / T1 * Fin 100) @ ''%'' else ''N/A'')"
    unfolding percent_cell_def zero_number_def ..
  show ?thesis
    unfolding formatComparisonTable_def Let_def assms(2,3)[symmetric] assms(4)[symmetric]
      comparison_loop_eq comparison_state.simps assms(5,6)[symmetric] pct line
    unfolding r list.case list.sel
    by (simp only: append_assoc)
qed

text \<open>The first row of a symbol, in terms of the order of the rows.\<close>

lemma first_row_append:
  assumes "\<forall>x\<in>set xs. symbol x \<noteq> s" and "symbol r = s"
  shows "first_row (xs @ r # ys) s = Some r"
proof -
  from assms(1) have "filter (\<lambda>r. symbol r = s) xs = []"
    by (induction xs) simp_all
  with assms(2) show ?thesis
    by (simp add: first_row_def)
qed

lemma first_row_none:
  assumes "\<forall>x\<in>set rows. symbol x \<noteq> s"
  shows "first_row rows s = None"
proof -
  from assms have "filter (\<lambda>r. symbol r = s) rows = []"
    by (induction rows) simp_all
  then show ?thesis
    by (simp add: first_row_def)
qed

lemma comparison_same_firsts:
  assumes "rows \<noteq> []" and "rows' \<noteq> []"
    and "PositionRow.address (hd rows) = PositionRow.address (hd rows')"
    and "first_per_symbol (filter (\<lambda>r. formatDate (PositionRow.date r) = d1) rows)
          = first_per_symbol (filter (\<lambda>r. formatDate (PositionRow.date r) = d1) rows')"
    and "first_per_symbol (filter (\<lambda>r. formatDate (PositionRow.date r) = d2) rows)
          = first_per_symbol (filter (\<lambda>r. formatDate (PositionRow.date r) = d2) rows')"
  shows "formatComparisonTable rows d1 d2 = formatComparisonTable rows' d1 d2"
proof -
  let ?F1 = "filter (\<lambda>r. formatDate (PositionRow.date r) = d1)"
  let ?F2 = "filter (\<lambda>r. formatDate (PositionRow.date r) = d2)"
  from assms(1,2) obtain r0 rest r0' rest' where rows: "rows = r0 # rest" and rows': "rows' = r0' # rest'"
    by (cases rows; cases rows') auto
  from assms(3) have addr: "PositionRow.address r0 = PositionRow.address r0'"
    by (simp add: rows rows')
  have loop: "comparison_loop (?F1 rows) (?F2 rows) (unique (map symbol (?F1 rows) @ map symbol (?F2 rows))) md
      = comparison_loop (?F1 rows') (?F2 rows') (unique (map symbol (?F1 rows') @ map symbol (?F2 rows'))) md"
    for md
    using assms(4,5) comparison_loop_dedup[of "?F1 rows" "?F2 rows" md]
      comparison_loop_dedup[of "?F1 rows'" "?F2 rows'" md]
    by simp
  show ?thesis
    unfolding formatComparisonTable_def Let_def loop
    unfolding rows rows' list.case addr ..
qed

text \<open>
  C10. Let \<open>D1\<close> and \<open>D2\<close> be the rows of the two dates of a non-empty row set, in the order
  of the row set, and \<open>symbols\<close> their symbols. The report has one line per symbol, and the
  line shows the balance and the USD value of the first row of the symbol on each date
  (zero when the date has no row of the symbol), their difference and the percentage; each
  total adds, over the symbols, the USD value of the first row of the symbol on that date.
  The first row of a symbol is the row before which no row has the symbol; rows of the
  symbol after it are not read: two row sets with the same first rows per symbol on both
  dates (and the same leading address) have the same report.
\<close>

theorem comparison_first_row_only:
  "(rows \<noteq> []
     \<and> D1 = filter (\<lambda>r. formatDate (PositionRow.date r) = d1) rows
     \<and> D2 = filter (\<lambda>r. formatDate (PositionRow.date r) = d2) rows
     \<and> symbols = unique (map symbol D1 @ map symbol D2)
     \<and> T1 = foldl (+) (Fin 0) (map (first_usd D1) symbols)
     \<and> T2 = foldl (+) (Fin 0) (map (first_usd D2) symbols)
    \<longrightarrow> formatComparisonTable rows d1 d2 =
      ''### Position Comparison for `'' @ shortAddr (PositionRow.address (hd rows)) @ ''`: ''
        @ d1 @ '' vs '' @ d2 @ ''\<newline>\<newline>''
        @ ''| Token | Balance ('' @ d1 @ '') | USD ('' @ d1 @ '') | Balance (''
        @ d2 @ '') | USD ('' @ d2 @ '') | Change | % Change |\<newline>''
        @ ''|-------|'' @ replicate 18 (CHR ''-'') @ ''|'' @ replicate 16 (CHR ''-'')
        @ ''|'' @ replicate 18 (CHR ''-'') @ ''|'' @ replicate 16 (CHR ''-'')
        @ ''|--------|----------|\<newline>''
        @ concat (map (\<lambda>s.
            ''| '' @ s @ '' | '' @ formatBalance (first_balance D1 s) @ '' | ''
              @ formatUSD (first_usd D1 s) @ '' | '' @ formatBalance (first_balance D2 s) @ '' | ''
              @ formatUSD (first_usd D2 s) @ '' | '' @ formatUSD (first_usd D2 s - first_usd D1 s)
              @ '' | ''
              @ (if Fin 0 < first_usd D1 s
                 then toFixed 2 ((first_usd D2 s - first_usd D1 s) / first_usd D1 s * Fin 100) @ ''%''
                 else ''N/A'')
              @ '' |\<newline>'') symbols)
        @ ''\<newline>**Total Portfolio:**\<newline>''
        @ ''- '' @ d1 @ '': '' @ formatUSD T1 @ ''\<newline>''
        @ ''- '' @ d2 @ '': '' @ formatUSD T2 @ ''\<newline>''
        @ ''- Change: '' @ formatUSD (T2 - T1) @ '' (''
        @ (if Fin 0 < T1 then toFixed 2 ((T2 - T1) / T1 * Fin 100) @ ''%'' else ''N/A'')
        @ '')\<newline>''
        @ data_source)
   \<and> ((\<forall>x\<in>set xs. symbol x \<noteq> s) \<and> symbol r = s
        \<longrightarrow> first_row (xs @ r # ys) s = Some r \<and> first_balance (xs @ r # ys) s = balance r
            \<and> first_usd (xs @ r # ys) s = usd_balance r)
   \<and> ((\<forall>x\<in>set xs. symbol x \<noteq> s)
        \<longrightarrow> first_row xs s = None \<and> first_balance xs s = Fin 0 \<and> first_usd xs s = Fin 0)
   \<and> (rows \<noteq> [] \<and> rows' \<noteq> []
        \<and> PositionRow.address (hd rows) = PositionRow.address (hd rows')
        \<and> first_per_symbol (filter (\<lambda>r. formatDate (PositionRow.date r) = d1) rows)
            = first_per_symbol (filter (\<lambda>r. formatDate (PositionRow.date r) = d1) rows')
        \<and> first_per_symbol (filter (\<lambda>r. formatDate (PositionRow.date r) = d2) rows)
            = first_per_symbol (filter (\<lambda>r. formatDate (PositionRow.date r) = d2) rows')
        \<longrightarrow> formatComparisonTable rows d1 d2 = formatComparisonTable rows' d1 d2)"
proof (intro conjI impI)
  assume "rows \<noteq> []
     \<and> D1 = filter (\<lambda>r. formatDate (PositionRow.date r) = d1) rows
     \<and> D2 = filter (\<lambda>r. formatDate (PositionRow.date r) = d2) rows
     \<and> symbols = unique (map symbol D1 @ map symbol D2)
     \<and> T1 = foldl (+) (Fin 0) (map (first_usd D1) symbols)
     \<and> T2 = foldl (+) (Fin 0) (map (first_usd D2) symbols)"
  then have h: "rows \<noteq> []" "D1 = filter (\<lambda>r. formatDate (PositionRow.date r) = d1) rows"
    "D2 = filter (\<lambda>r. formatDate (PositionRow.date r) = d2) rows"
    "symbols = unique (map symbol D1 @ map symbol D2)"
    "T1 = foldl (+) (Fin 0) (map (first_usd D1) symbols)"
    "T2 = foldl (+) (Fin 0) (map (first_usd D2) symbols)"
    by blast+
  show "formatComparisonTable rows d1 d2 =
      ''### Position Comparison for `'' @ shortAddr (PositionRow.address (hd rows)) @ ''`: ''
        @ d1 @ '' vs '' @ d2 @ ''\<newline>\<newline>''
        @ ''| Token | Balance ('' @ d1 @ '') | USD ('' @ d1 @ '') | Balance (''
        @ d2 @ '') | USD ('' @ d2 @ '') | Change | % Change |\<newline>''
        @ ''|-------|'' @ replicate 18 (CHR ''-'') @ ''|'' @ replicate 16 (CHR ''-'')
        @ ''|'' @ replicate 18 (CHR ''-'') @ ''|'' @ replicate 16 (CHR ''-'')
        @ ''|--------|----------|\<newline>''
        @ concat (map (\<lambda>s.
            ''| '' @ s @ '' | '' @ formatBalance (first_balance D1 s) @ '' | ''
              @ formatUSD (first_usd D1 s) @ '' | '' @ formatBalance (first_balance D2 s) @ '' | ''
              @ formatUSD (first_usd D2 s) @ '' | '' @ formatUSD (first_usd D2 s - first_usd D1 s)
              @ '' | ''
              @ (if Fin 0 < first_usd D1 s
                 then toFixed 2 ((first_usd D2 s - first_usd D1 s) / first_usd D1 s * Fin 100) @ ''%''
                 else ''N/A'')
              @ '' |\<newline>'') symbols)
        @ ''\<newline>**Total Portfolio:**\<newline>''
        @ ''- '' @ d1 @ '': '' @ formatUSD T1 @ ''\<newline>''
        @ ''- '' @ d2 @ '': '' @ formatUSD T2 @ ''\<newline>''
        @ ''- Change: '' @ formatUSD (T2 - T1) @ '' (''
        @ (if Fin 0 < T1 then toFixed 2 ((T2 - T1) / T1 * Fin 100) @ ''%'' else ''N/A'')
        @ '')\<newline>''
        @ data_source"
    using h by (rule comparison_report)
next
  assume "(\<forall>x\<in>set xs. symbol x \<noteq> s) \<and> symbol r = s"
  then have "first_row (xs @ r # ys) s = Some r"
    using first_row_append by blast
  then show "first_row (xs @ r # ys) s = Some r" "first_balance (xs @ r # ys) s = balance r"
    "first_usd (xs @ r # ys) s = usd_balance r"
    by (simp_all add: first_balance_def first_usd_def)
next
  assume "\<forall>x\<in>set xs. symbol x \<noteq> s"
  then have "first_row xs s = None"
    by (rule first_row_none)
  then show "first_row xs s = None" "first_balance xs s = Fin 0" "first_usd xs s = Fin 0"
    by (simp_all add: first_balance_def first_usd_def)
next
  assume "rows \<noteq> [] \<and> rows' \<noteq> []
        \<and> PositionRow.address (hd rows) = PositionRow.address (hd rows')
        \<and> first_per_symbol (filter (\<lambda>r. formatDate (PositionRow.date r) = d1) rows)
            = first_per_symbol (filter (\<lambda>r. formatDate (PositionRow.date r) = d1) rows')
        \<and> first_per_symbol (filter (\<lambda>r. formatDate (PositionRow.date r) = d2) rows)
            = first_per_symbol (filter (\<lambda>r. formatDate (PositionRow.date r) = d2) rows')"
  then show "formatComparisonTable rows d1 d2 = formatComparisonTable rows' d1 d2"
    using comparison_same_firsts by blast
qed

lemma filter_examples:
  "filter (\<lambda>r. formatDate (PositionRow.date r) = ''2025-09-30'') comparison_duplicates
     = [example_row ''2025-09-30'' ''USDC'' 100 100, example_row ''2025-09-30'' ''USDC'' 50 50]"
  "filter (\<lambda>r. formatDate (PositionRow.date r) = ''2025-12-31'') comparison_duplicates
     = [example_row ''2025-12-31'' ''USDC'' 70 70]"
  "filter (\<lambda>r. formatDate (PositionRow.date r) = ''2025-09-30'') comparison_firsts
     = [example_row ''2025-09-30'' ''USDC'' 100 100]"
  "filter (\<lambda>r. formatDate (PositionRow.date r) = ''2025-12-31'') comparison_firsts
     = [example_row ''2025-12-31'' ''USDC'' 70 70]"
  by (simp_all add: comparison_duplicates_def comparison_firsts_def example_row_def formatDate_def)

lemma first_examples:
  "first_per_symbol [example_row ''2025-09-30'' ''USDC'' 100 100, example_row ''2025-09-30'' ''USDC'' 50 50]
     = [example_row ''2025-09-30'' ''USDC'' 100 100]"
  "first_per_symbol [example_row d s b u] = [example_row d s b u]"
  by (simp_all add: example_row_def)

lemma example_row_fields:
  "symbol (example_row d s b u) = s" "balance (example_row d s b u) = Fin b"
  "usd_balance (example_row d s b u) = Fin u"
  "PositionRow.address (example_row d s b u) = ''GQRzZVLkmehJM1fnMj8e8DdhxMPmQBEGiSnSWeVeJvCc''"
  by (simp_all add: example_row_def)

lemma shortAddr_example: "shortAddr ''GQRzZVLkmehJM1fnMj8e8DdhxMPmQBEGiSnSWeVeJvCc'' = ''GQRz...JvCc''"
  by (simp add: shortAddr_def slice_first4_def slice_last4_def)

lemma separator_dashes:
  "replicate 18 (CHR ''-'') = ''------------------''" "replicate 16 (CHR ''-'') = ''----------------''"
  by (simp_all add: numeral_eq_Suc)

lemma unique_pair: "unique [s, s] = [s]" "unique [s, s, s] = [s]"
  by (simp_all add: unique_def set_add_def)

lemma first_of_examples:
  "first_usd (example_row d s b u # rest) s = Fin u"
  "first_balance (example_row d s b u # rest) s = Fin b"
  by (simp_all add: first_usd_def first_balance_def first_row_def example_row_def)

lemma duplicate_cells:
  "formatBalance (Fin 100) = ''100.000000''" "formatUSD (Fin 100) = ''$100.00''"
  "formatBalance (Fin 70) = ''70.000000''" "formatUSD (Fin 70) = ''$70.00''"
  "Fin 0 + Fin 100 = Fin 100" "Fin 0 + Fin 70 = Fin 70"
  "formatUSD (Fin 70 - Fin 100) = ''$-30.00''"
  "(if Fin 0 < Fin 100 then toFixed 2 ((Fin 70 - Fin 100) / Fin 100 * Fin 100) @ ''%'' else ''N/A'')
     = ''-30.00%''"
  by (simp_all add: format_eval)

text \<open>
  The first date of the witness has two \<open>USDC\<close> rows, worth 100 and 50: the line and the
  total of the date show 100, and the report is that of the rows without the second one.
\<close>

theorem comparison_first_row_only_witness:
  "formatComparisonTable comparison_duplicates ''2025-09-30'' ''2025-12-31'' =
     ''### Position Comparison for `GQRz...JvCc`: 2025-09-30 vs 2025-12-31\<newline>\<newline>''
       @ ''| Token | Balance (2025-09-30) | USD (2025-09-30) | Balance (2025-12-31) | USD (2025-12-31) | Change | % Change |\<newline>''
       @ ''|-------|------------------|----------------|------------------|----------------|--------|----------|\<newline>''
       @ ''| USDC | 100.000000 | $100.00 | 70.000000 | $70.00 | $-30.00 | -30.00% |\<newline>''
       @ ''\<newline>**Total Portfolio:**\<newline>''
       @ ''- 2025-09-30: $100.00\<newline>''
       @ ''- 2025-12-31: $70.00\<newline>''
       @ ''- Change: $-30.00 (-30.00%)\<newline>''
       @ data_source
   \<and> (first_row ([] @ example_row ''2025-09-30'' ''USDC'' 100 100
                    # [example_row ''2025-09-30'' ''USDC'' 50 50]) ''USDC''
         = Some (example_row ''2025-09-30'' ''USDC'' 100 100)
       \<and> first_balance ([] @ example_row ''2025-09-30'' ''USDC'' 100 100
                    # [example_row ''2025-09-30'' ''USDC'' 50 50]) ''USDC''
         = balance (example_row ''2025-09-30'' ''USDC'' 100 100)
       \<and> first_usd ([] @ example_row ''2025-09-30'' ''USDC'' 100 100
                    # [example_row ''2025-09-30'' ''USDC'' 50 50]) ''USDC''
         = usd_balance (example_row ''2025-09-30'' ''USDC'' 100 100))
   \<and> (first_row [example_row ''2025-12-31'' ''USDC'' 70 70] ''SOL'' = None
       \<and> first_balance [example_row ''2025-12-31'' ''USDC'' 70 70] ''SOL'' = Fin 0
       \<and> first_usd [example_row ''2025-12-31'' ''USDC'' 70 70] ''SOL'' = Fin 0)
   \<and> formatComparisonTable comparison_duplicates ''2025-09-30'' ''2025-12-31''
       = formatComparisonTable comparison_firsts ''2025-09-30'' ''2025-12-31''"
proof -
  note inst = comparison_first_row_only[of comparison_duplicates
      "[example_row ''2025-09-30'' ''USDC'' 100 100, example_row ''2025-09-30'' ''USDC'' 50 50]"
      "''2025-09-30''" "[example_row ''2025-12-31'' ''USDC'' 70 70]" "''2025-12-31''"
      "[''USDC'']" "Fin 100" "Fin 70" "[]" "''USDC''"
      "example_row ''2025-09-30'' ''USDC'' 100 100" "[example_row ''2025-09-30'' ''USDC'' 50 50]"
      comparison_firsts]
  note inst2 = comparison_first_row_only[of _ _ _ _ _ _ _ _ "[example_row ''2025-12-31'' ''USDC'' 70 70]"
      "''SOL''"]
  have ne: "comparison_duplicates \<noteq> []"
    by (simp add: comparison_duplicates_def)
  have report_h: "comparison_duplicates \<noteq> []
     \<and> [example_row ''2025-09-30'' ''USDC'' 100 100, example_row ''2025-09-30'' ''USDC'' 50 50]
         = filter (\<lambda>r. formatDate (PositionRow.date r) = ''2025-09-30'') comparison_duplicates
     \<and> [example_row ''2025-12-31'' ''USDC'' 70 70]
         = filter (\<lambda>r. formatDate (PositionRow.date r) = ''2025-12-31'') comparison_duplicates
     \<and> [''USDC''] = unique (map symbol
           [example_row ''2025-09-30'' ''USDC'' 100 100, example_row ''2025-09-30'' ''USDC'' 50 50]
           @ map symbol [example_row ''2025-12-31'' ''USDC'' 70 70])
     \<and> Fin 100 = foldl (+) (Fin 0) (map (first_usd
           [example_row ''2025-09-30'' ''USDC'' 100 100, example_row ''2025-09-30'' ''USDC'' 50 50])
           [''USDC''])
     \<and> Fin 70 = foldl (+) (Fin 0) (map (first_usd [example_row ''2025-12-31'' ''USDC'' 70 70])
           [''USDC''])"
    unfolding filter_examples list.map example_row_fields append.simps unique_pair foldl.simps
      first_of_examples duplicate_cells
    using ne by simp
  have hd: "hd comparison_duplicates = example_row ''2025-09-30'' ''USDC'' 100 100"
    by (simp add: comparison_duplicates_def)
  have report: "formatComparisonTable comparison_duplicates ''2025-09-30'' ''2025-12-31'' =
     ''### Position Comparison for `GQRz...JvCc`: 2025-09-30 vs 2025-12-31\<newline>\<newline>''
       @ ''| Token | Balance (2025-09-30) | USD (2025-09-30) | Balance (2025-12-31) | USD (2025-12-31) | Change | % Change |\<newline>''
       @ ''|-------|------------------|----------------|------------------|----------------|--------|----------|\<newline>''
       @ ''| USDC | 100.000000 | $100.00 | 70.000000 | $70.00 | $-30.00 | -30.00% |\<newline>''
       @ ''\<newline>**Total Portfolio:**\<newline>''
       @ ''- 2025-09-30: $100.00\<newline>''
       @ ''- 2025-12-31: $70.00\<newline>''
       @ ''- Change: $-30.00 (-30.00%)\<newline>''
       @ data_source"
    unfolding inst[THEN conjunct1, THEN mp, OF report_h] hd example_row_fields shortAddr_example
      list.map concat.simps first_of_examples duplicate_cells separator_dashes
    by simp
  have first_h: "(\<forall>x\<in>set []. symbol x \<noteq> ''USDC'')
      \<and> symbol (example_row ''2025-09-30'' ''USDC'' 100 100) = ''USDC''"
    by (simp add: example_row_fields)
  have none_h: "\<forall>x\<in>set [example_row ''2025-12-31'' ''USDC'' 70 70]. symbol x \<noteq> ''SOL''"
    by (simp add: example_row_fields)
  have same_h: "comparison_duplicates \<noteq> [] \<and> comparison_firsts \<noteq> []
        \<and> PositionRow.address (hd comparison_duplicates) = PositionRow.address (hd comparison_firsts)
        \<and> first_per_symbol (filter (\<lambda>r. formatDate (PositionRow.date r) = ''2025-09-30'') comparison_duplicates)
            = first_per_symbol (filter (\<lambda>r. formatDate (PositionRow.date r) = ''2025-09-30'') comparison_firsts)
        \<and> first_per_symbol (filter (\<lambda>r. formatDate (PositionRow.date r) = ''2025-12-31'') comparison_duplicates)
            = first_per_symbol (filter (\<lambda>r. formatDate (PositionRow.date r) = ''2025-12-31'') comparison_firsts)"
    unfolding filter_examples first_examples
    by (simp add: comparison_duplicates_def comparison_firsts_def example_row_def)
  note first = inst[THEN conjunct2, THEN conjunct1, THEN mp, OF first_h]
  note none = inst2[THEN conjunct2, THEN conjunct2, THEN conjunct1, THEN mp, OF none_h]
  note same = inst[THEN conjunct2, THEN conjunct2, THEN conjunct2, THEN mp, OF same_h]
  show ?thesis
    by (rule conjI[OF report], rule conjI[OF first], rule conjI[OF none], rule same)
qed

text \<open>The report for one symbol that has one row on each of the two dates.\<close>

lemma comparison_single:
  assumes rows: "rows \<noteq> []"
    and d1: "filter (\<lambda>r. formatDate (PositionRow.date r) = d1) rows = [r1]"
    and d2: "filter (\<lambda>r. formatDate (PositionRow.date r) = d2) rows = [r2]"
    and same: "symbol r1 = symbol r2"
  shows "formatComparisonTable rows d1 d2 =
      ''### Position Comparison for `'' @ shortAddr (PositionRow.address (hd rows)) @ ''`: ''
        @ d1 @ '' vs '' @ d2 @ ''\<newline>\<newline>''
        @ ''| Token | Balance ('' @ d1 @ '') | USD ('' @ d1 @ '') | Balance (''
        @ d2 @ '') | USD ('' @ d2 @ '') | Change | % Change |\<newline>''
        @ ''|-------|'' @ replicate 18 (CHR ''-'') @ ''|'' @ replicate 16 (CHR ''-'')
        @ ''|'' @ replicate 18 (CHR ''-'') @ ''|'' @ replicate 16 (CHR ''-'')
        @ ''|--------|----------|\<newline>''
        @ ''| '' @ symbol r1 @ '' | '' @ formatBalance (balance r1) @ '' | ''
        @ formatUSD (usd_balance r1) @ '' | '' @ formatBalance (balance r2) @ '' | ''
        @ formatUSD (usd_balance r2) @ '' | '' @ formatUSD (usd_balance r2 - usd_balance r1)
        @ '' | ''
        @ (if Fin 0 < usd_balance r1
           then toFixed 2 ((usd_balance r2 - usd_balance r1) / usd_balance r1 * Fin 100) @ ''%''
           else ''N/A'')
        @ '' |\<newline>''
        @ ''\<newline>**Total Portfolio:**\<newline>''
        @ ''- '' @ d1 @ '': '' @ formatUSD (Fin 0 + usd_balance r1) @ ''\<newline>''
        @ ''- '' @ d2 @ '': '' @ formatUSD (Fin 0 + usd_balance r2) @ ''\<newline>''
        @ ''- Change: '' @ formatUSD ((Fin 0 + usd_balance r2) - (Fin 0 + usd_balance r1)) @ '' (''
        @ (if Fin 0 < Fin 0 + usd_balance r1
           then toFixed 2 (((Fin 0 + usd_balance r2) - (Fin 0 + usd_balance r1))
                             / (Fin 0 + usd_balance r1) * Fin 100) @ ''%''
           else ''N/A'')
        @ '')\<newline>''
        @ data_source"
proof -
  have syms: "[symbol r1] = unique (map symbol [r1] @ map symbol [r2])"
    using same unique_pair(1)[of "symbol r1"] by simp
  have firsts: "first_usd [r1] (symbol r1) = usd_balance r1" "first_usd [r2] (symbol r1) = usd_balance r2"
    "first_balance [r1] (symbol r1) = balance r1" "first_balance [r2] (symbol r1) = balance r2"
    using same by (simp_all add: first_usd_def first_balance_def first_row_def)
  have totals: "Fin 0 + usd_balance r1 = foldl (+) (Fin 0) (map (first_usd [r1]) [symbol r1])"
    "Fin 0 + usd_balance r2 = foldl (+) (Fin 0) (map (first_usd [r2]) [symbol r1])"
    by (simp_all add: firsts)
  show ?thesis
    unfolding comparison_report[OF rows d1[symmetric] d2[symmetric] syms totals]
    unfolding list.map concat.simps firsts
    by (simp only: append_assoc append_Nil2)
qed

lemma example_filters:
  "filter (\<lambda>r. formatDate (PositionRow.date r) = ''2025-09-30'')
      [example_row ''2025-09-30'' s b u, example_row ''2025-12-31'' s' b' u']
     = [example_row ''2025-09-30'' s b u]"
  "filter (\<lambda>r. formatDate (PositionRow.date r) = ''2025-12-31'')
      [example_row ''2025-09-30'' s b u, example_row ''2025-12-31'' s' b' u']
     = [example_row ''2025-12-31'' s' b' u']"
  by (simp_all add: example_row_def formatDate_def)

text \<open>
  C5, as amended. For one symbol with one row on each of the two dates, the report is the
  heading, the line of the symbol and the totals. The percentage cell of the line is \<open>N/A\<close>
  unless \<open>usd1 > 0\<close> (so for a \<open>usd1\<close> that is zero, negative or not a number, whatever \<open>usd2\<close>
  is); for \<open>usd1 > 0\<close> it is \<open>toFixed(2)\<close> of the double that the three operations of
  \<open>(usd2 - usd1) / usd1 * 100\<close> yield, each rounded to a double, and a percent sign. When
  that double \<open>p\<close> is finite and below \<open>10\<^sup>2\<^sup>1\<close> in magnitude, the cell is a numeral with
  exactly 2 decimals within 0.005 of \<open>p\<close>. The last line of the totals has the same guard
  on the total of the first date.
\<close>

theorem comparison_percent_guard:
  "(rows \<noteq> []
     \<and> filter (\<lambda>r. formatDate (PositionRow.date r) = d1) rows = [r1]
     \<and> filter (\<lambda>r. formatDate (PositionRow.date r) = d2) rows = [r2]
     \<and> symbol r1 = symbol r2
    \<longrightarrow> formatComparisonTable rows d1 d2 =
      ''### Position Comparison for `'' @ shortAddr (PositionRow.address (hd rows)) @ ''`: ''
        @ d1 @ '' vs '' @ d2 @ ''\<newline>\<newline>''
        @ ''| Token | Balance ('' @ d1 @ '') | USD ('' @ d1 @ '') | Balance (''
        @ d2 @ '') | USD ('' @ d2 @ '') | Change | % Change |\<newline>''
        @ ''|-------|'' @ replicate 18 (CHR ''-'') @ ''|'' @ replicate 16 (CHR ''-'')
        @ ''|'' @ replicate 18 (CHR ''-'') @ ''|'' @ replicate 16 (CHR ''-'')
        @ ''|--------|----------|\<newline>''
        @ ''| '' @ symbol r1 @ '' | '' @ formatBalance (balance r1) @ '' | ''
        @ formatUSD (usd_balance r1) @ '' | '' @ formatBalance (balance r2) @ '' | ''
        @ formatUSD (usd_balance r2) @ '' | '' @ formatUSD (usd_balance r2 - usd_balance r1)
        @ '' | ''
        @ (if Fin 0 < usd_balance r1
           then toFixed 2 ((usd_balance r2 - usd_balance r1) / usd_balance r1 * Fin 100) @ ''%''
           else ''N/A'')
        @ '' |\<newline>''
        @ ''\<newline>**Total Portfolio:**\<newline>''
        @ ''- '' @ d1 @ '': '' @ formatUSD (Fin 0 + usd_balance r1) @ ''\<newline>''
        @ ''- '' @ d2 @ '': '' @ formatUSD (Fin 0 + usd_balance r2) @ ''\<newline>''
        @ ''- Change: '' @ formatUSD ((Fin 0 + usd_balance r2) - (Fin 0 + usd_balance r1)) @ '' (''
        @ (if Fin 0 < Fin 0 + usd_balance r1
           then toFixed 2 (((Fin 0 + usd_balance r2) - (Fin 0 + usd_balance r1))
                             / (Fin 0 + usd_balance r1) * Fin 100) @ ''%''
           else ''N/A'')
        @ '')\<newline>''
        @ data_source)
   \<and> ((Fin 0 < usd1) = (usd1 = PosInf \<or> (\<exists>u. usd1 = Fin u \<and> 0 < u)))
   \<and> ((usd2 - usd1) / usd1 * Fin 100 = Fin p \<and> \<bar>p\<bar> < 10 ^ 21
        \<longrightarrow> fixed_point 2 (toFixed 2 ((usd2 - usd1) / usd1 * Fin 100))
            \<and> \<bar>fixed_value 2 (toFixed 2 ((usd2 - usd1) / usd1 * Fin 100)) - p\<bar> \<le> 1 / 200)"
proof (intro conjI impI)
  assume "rows \<noteq> []
     \<and> filter (\<lambda>r. formatDate (PositionRow.date r) = d1) rows = [r1]
     \<and> filter (\<lambda>r. formatDate (PositionRow.date r) = d2) rows = [r2]
     \<and> symbol r1 = symbol r2"
  then have h: "rows \<noteq> []" "filter (\<lambda>r. formatDate (PositionRow.date r) = d1) rows = [r1]"
    "filter (\<lambda>r. formatDate (PositionRow.date r) = d2) rows = [r2]" "symbol r1 = symbol r2"
    by blast+
  show "formatComparisonTable rows d1 d2 =
      ''### Position Comparison for `'' @ shortAddr (PositionRow.address (hd rows)) @ ''`: ''
        @ d1 @ '' vs '' @ d2 @ ''\<newline>\<newline>''
        @ ''| Token | Balance ('' @ d1 @ '') | USD ('' @ d1 @ '') | Balance (''
        @ d2 @ '') | USD ('' @ d2 @ '') | Change | % Change |\<newline>''
        @ ''|-------|'' @ replicate 18 (CHR ''-'') @ ''|'' @ replicate 16 (CHR ''-'')
        @ ''|'' @ replicate 18 (CHR ''-'') @ ''|'' @ replicate 16 (CHR ''-'')
        @ ''|--------|----------|\<newline>''
        @ ''| '' @ symbol r1 @ '' | '' @ formatBalance (balance r1) @ '' | ''
        @ formatUSD (usd_balance r1) @ '' | '' @ formatBalance (balance r2) @ '' | ''
        @ formatUSD (usd_balance r2) @ '' | '' @ formatUSD (usd_balance r2 - usd_balance r1)
        @ '' | ''
        @ (if Fin 0 < usd_balance r1
           then toFixed 2 ((usd_balance r2 - usd_balance r1) / usd_balance r1 * Fin 100) @ ''%''
           else ''N/A'')
        @ '' |\<newline>''
        @ ''\<newline>**Total Portfolio:**\<newline>''
        @ ''- '' @ d1 @ '': '' @ formatUSD (Fin 0 + usd_balance r1) @ ''\<newline>''
        @ ''- '' @ d2 @ '': '' @ formatUSD (Fin 0 + usd_balance r2) @ ''\<newline>''
        @ ''- Change: '' @ formatUSD ((Fin 0 + usd_balance r2) - (Fin 0 + usd_balance r1)) @ '' (''
        @ (if Fin 0 < Fin 0 + usd_balance r1
           then toFixed 2 (((Fin 0 + usd_balance r2) - (Fin 0 + usd_balance r1))
                             / (Fin 0 + usd_balance r1) * Fin 100) @ ''%''
           else ''N/A'')
        @ '')\<newline>''
        @ data_source"
    using h by (rule comparison_single)
next
  show "(Fin 0 < usd1) = (usd1 = PosInf \<or> (\<exists>u. usd1 = Fin u \<and> 0 < u))"
    by (cases usd1) (simp_all add: number_ops)
next
  assume a: "(usd2 - usd1) / usd1 * Fin 100 = Fin p \<and> \<bar>p\<bar> < 10 ^ 21"
  then have p: "\<bar>p\<bar> < 10 ^ 21" and eq: "(usd2 - usd1) / usd1 * Fin 100 = Fin p"
    by simp_all
  from toFixed_numeral[of 2 p] p
  show "fixed_point 2 (toFixed 2 ((usd2 - usd1) / usd1 * Fin 100))"
    "\<bar>fixed_value 2 (toFixed 2 ((usd2 - usd1) / usd1 * Fin 100)) - p\<bar> \<le> 1 / 200"
    unfolding eq by simp_all
qed

lemma growth_cells:
  "formatBalance (Fin 80) = ''80.000000''" "formatUSD (Fin 80) = ''$80.00''"
  "Fin 0 + Fin 80 = Fin 80" "Fin 100 - Fin 80 = Fin 20" "formatUSD (Fin 20) = ''$20.00''"
  "Fin 20 / Fin 80 * Fin 100 = Fin 25" "(Fin 0 < Fin 80) = True"
  "toFixed 2 (Fin 25) = ''25.00''"
  by (simp_all add: format_eval)

lemma zero_cells:
  "formatBalance (Fin 1) = ''1.000000''" "formatUSD (Fin 0) = ''$0.00''"
  "Fin 0 + Fin 0 = Fin 0" "Fin 100 - Fin 0 = Fin 100" "(Fin 0 < Fin 0) = False"
  by (simp_all add: format_eval)

theorem comparison_percent_guard_witness:
  "formatComparisonTable growth_rows ''2025-09-30'' ''2025-12-31'' =
     ''### Position Comparison for `GQRz...JvCc`: 2025-09-30 vs 2025-12-31\<newline>\<newline>''
       @ ''| Token | Balance (2025-09-30) | USD (2025-09-30) | Balance (2025-12-31) | USD (2025-12-31) | Change | % Change |\<newline>''
       @ ''|-------|------------------|----------------|------------------|----------------|--------|----------|\<newline>''
       @ ''| USDC | 80.000000 | $80.00 | 100.000000 | $100.00 | $20.00 | 25.00% |\<newline>''
       @ ''\<newline>**Total Portfolio:**\<newline>''
       @ ''- 2025-09-30: $80.00\<newline>''
       @ ''- 2025-12-31: $100.00\<newline>''
       @ ''- Change: $20.00 (25.00%)\<newline>''
       @ data_source
   \<and> formatComparisonTable zero_rows ''2025-09-30'' ''2025-12-31'' =
     ''### Position Comparison for `GQRz...JvCc`: 2025-09-30 vs 2025-12-31\<newline>\<newline>''
       @ ''| Token | Balance (2025-09-30) | USD (2025-09-30) | Balance (2025-12-31) | USD (2025-12-31) | Change | % Change |\<newline>''
       @ ''|-------|------------------|----------------|------------------|----------------|--------|----------|\<newline>''
       @ ''| USDC | 1.000000 | $0.00 | 1.000000 | $100.00 | $100.00 | N/A |\<newline>''
       @ ''\<newline>**Total Portfolio:**\<newline>''
       @ ''- 2025-09-30: $0.00\<newline>''
       @ ''- 2025-12-31: $100.00\<newline>''
       @ ''- Change: $100.00 (N/A)\<newline>''
       @ data_source
   \<and> fixed_point 2 (toFixed 2 ((Fin 100 - Fin 80) / Fin 80 * Fin 100))
   \<and> \<bar>fixed_value 2 (toFixed 2 ((Fin 100 - Fin 80) / Fin 80 * Fin 100)) - 25\<bar> \<le> 1 / 200"
proof -
  have g: "growth_rows \<noteq> []
      \<and> filter (\<lambda>r. formatDate (PositionRow.date r) = ''2025-09-30'') growth_rows
          = [example_row ''2025-09-30'' ''USDC'' 80 80]
      \<and> filter (\<lambda>r. formatDate (PositionRow.date r) = ''2025-12-31'') growth_rows
          = [example_row ''2025-12-31'' ''USDC'' 100 100]
      \<and> symbol (example_row ''2025-09-30'' ''USDC'' 80 80)
          = symbol (example_row ''2025-12-31'' ''USDC'' 100 100)"
    unfolding growth_rows_def example_filters example_row_fields by simp
  have z: "zero_rows \<noteq> []
      \<and> filter (\<lambda>r. formatDate (PositionRow.date r) = ''2025-09-30'') zero_rows
          = [example_row ''2025-09-30'' ''USDC'' 1 0]
      \<and> filter (\<lambda>r. formatDate (PositionRow.date r) = ''2025-12-31'') zero_rows
          = [example_row ''2025-12-31'' ''USDC'' 1 100]
      \<and> symbol (example_row ''2025-09-30'' ''USDC'' 1 0)
          = symbol (example_row ''2025-12-31'' ''USDC'' 1 100)"
    unfolding zero_rows_def example_filters example_row_fields by simp
  have hd: "hd growth_rows = example_row ''2025-09-30'' ''USDC'' 80 80"
    "hd zero_rows = example_row ''2025-09-30'' ''USDC'' 1 0"
    by (simp_all add: growth_rows_def zero_rows_def)
  have growth: "formatComparisonTable growth_rows ''2025-09-30'' ''2025-12-31'' =
     ''### Position Comparison for `GQRz...JvCc`: 2025-09-30 vs 2025-12-31\<newline>\<newline>''
       @ ''| Token | Balance (2025-09-30) | USD (2025-09-30) | Balance (2025-12-31) | USD (2025-12-31) | Change | % Change |\<newline>''
       @ ''|-------|------------------|----------------|------------------|----------------|--------|----------|\<newline>''
       @ ''| USDC | 80.000000 | $80.00 | 100.000000 | $100.00 | $20.00 | 25.00% |\<newline>''
       @ ''\<newline>**Total Portfolio:**\<newline>''
       @ ''- 2025-09-30: $80.00\<newline>''
       @ ''- 2025-12-31: $100.00\<newline>''
       @ ''- Change: $20.00 (25.00%)\<newline>''
       @ data_source"
    unfolding comparison_percent_guard[THEN conjunct1, THEN mp, OF g] hd example_row_fields
      shortAddr_example duplicate_cells growth_cells separator_dashes
    by simp
  have zero: "formatComparisonTable zero_rows ''2025-09-30'' ''2025-12-31'' =
     ''### Position Comparison for `GQRz...JvCc`: 2025-09-30 vs 2025-12-31\<newline>\<newline>''
       @ ''| Token | Balance (2025-09-30) | USD (2025-09-30) | Balance (2025-12-31) | USD (2025-12-31) | Change | % Change |\<newline>''
       @ ''|-------|------------------|----------------|------------------|----------------|--------|----------|\<newline>''
       @ ''| USDC | 1.000000 | $0.00 | 1.000000 | $100.00 | $100.00 | N/A |\<newline>''
       @ ''\<newline>**Total Portfolio:**\<newline>''
       @ ''- 2025-09-30: $0.00\<newline>''
       @ ''- 2025-12-31: $100.00\<newline>''
       @ ''- Change: $100.00 (N/A)\<newline>''
       @ data_source"
    unfolding comparison_percent_guard[THEN conjunct1, THEN mp, OF z] hd example_row_fields
      shortAddr_example duplicate_cells zero_cells separator_dashes
    by simp
  have pct: "(Fin 100 - Fin 80) / Fin 80 * Fin 100 = Fin 25 \<and> \<bar>25::real\<bar> < 10 ^ 21"
    by (simp add: growth_cells)
  note numeral = comparison_percent_guard[of _ _ _ _ _ "Fin 80" "Fin 100" 25, THEN conjunct2,
      THEN conjunct2, THEN mp, OF pct]
  show ?thesis
    by (rule conjI[OF growth], rule conjI[OF zero], rule numeral)
qed

text \<open>
  The claim of C5 as it is written fails in two ways. The quotient is computed in doubles:
  for 160 and 183 the exact value of \<open>(usd2 - usd1) / usd1 * 100\<close> is 14.375, which is 14.38
  with two decimals, and the report has \<open>14.37%\<close>. And the guard is \<open>usd1 > 0\<close>: for a
  first-date value of -50 the claim gives the cell \<open>-300.00%\<close> and the report has \<open>N/A\<close>.
\<close>

lemma rounding_cells:
  "formatBalance (Fin 160) = ''160.000000''" "formatUSD (Fin 160) = ''$160.00''"
  "formatBalance (Fin 183) = ''183.000000''" "formatUSD (Fin 183) = ''$183.00''"
  "Fin 0 + Fin 160 = Fin 160" "Fin 0 + Fin 183 = Fin 183" "Fin 183 - Fin 160 = Fin 23"
  "formatUSD (Fin 23) = ''$23.00''" "(Fin 0 < Fin 160) = True"
  "toFixed 2 (Fin 23 / Fin 160 * Fin 100) = ''14.37''"
  by (simp_all add: format_eval)

lemma negative_cells:
  "formatUSD (Fin (- 50)) = ''$-50.00''" "Fin 0 + Fin (- 50) = Fin (- 50)"
  "Fin 100 - Fin (- 50) = Fin 150" "formatUSD (Fin 150) = ''$150.00''"
  "(Fin 0 < Fin (- 50)) = False"
  by (simp_all add: format_eval)

theorem comparison_percent_counterexample:
  "formatComparisonTable rounding_rows ''2025-09-30'' ''2025-12-31'' =
     ''### Position Comparison for `GQRz...JvCc`: 2025-09-30 vs 2025-12-31\<newline>\<newline>''
       @ ''| Token | Balance (2025-09-30) | USD (2025-09-30) | Balance (2025-12-31) | USD (2025-12-31) | Change | % Change |\<newline>''
       @ ''|-------|------------------|----------------|------------------|----------------|--------|----------|\<newline>''
       @ ''| USDC | 160.000000 | $160.00 | 183.000000 | $183.00 | $23.00 | 14.37% |\<newline>''
       @ ''\<newline>**Total Portfolio:**\<newline>''
       @ ''- 2025-09-30: $160.00\<newline>''
       @ ''- 2025-12-31: $183.00\<newline>''
       @ ''- Change: $23.00 (14.37%)\<newline>''
       @ data_source
   \<and> (183 - 160) / 160 * 100 = (14.375::real)
   \<and> fixed_notation 2 ((183 - 160) / 160 * 100) = ''14.38''
   \<and> formatComparisonTable negative_rows ''2025-09-30'' ''2025-12-31'' =
     ''### Position Comparison for `GQRz...JvCc`: 2025-09-30 vs 2025-12-31\<newline>\<newline>''
       @ ''| Token | Balance (2025-09-30) | USD (2025-09-30) | Balance (2025-12-31) | USD (2025-12-31) | Change | % Change |\<newline>''
       @ ''|-------|------------------|----------------|------------------|----------------|--------|----------|\<newline>''
       @ ''| USDC | 1.000000 | $-50.00 | 1.000000 | $100.00 | $150.00 | N/A |\<newline>''
       @ ''\<newline>**Total Portfolio:**\<newline>''
       @ ''- 2025-09-30: $-50.00\<newline>''
       @ ''- 2025-12-31: $100.00\<newline>''
       @ ''- Change: $150.00 (N/A)\<newline>''
       @ data_source
   \<and> fixed_notation 2 ((100 - (- 50)) / (- 50) * 100) = ''-300.00''"
proof -
  have ne: "rounding_rows \<noteq> []" "negative_rows \<noteq> []"
    by (simp_all add: rounding_rows_def negative_rows_def)
  have hd: "hd rounding_rows = example_row ''2025-09-30'' ''USDC'' 160 160"
    "hd negative_rows = example_row ''2025-09-30'' ''USDC'' 1 (- 50)"
    by (simp_all add: rounding_rows_def negative_rows_def)
  have r1: "filter (\<lambda>r. formatDate (PositionRow.date r) = ''2025-09-30'') rounding_rows
      = [example_row ''2025-09-30'' ''USDC'' 160 160]"
    unfolding rounding_rows_def by (rule example_filters(1))
  have r2: "filter (\<lambda>r. formatDate (PositionRow.date r) = ''2025-12-31'') rounding_rows
      = [example_row ''2025-12-31'' ''USDC'' 183 183]"
    unfolding rounding_rows_def by (rule example_filters(2))
  have n1: "filter (\<lambda>r. formatDate (PositionRow.date r) = ''2025-09-30'') negative_rows
      = [example_row ''2025-09-30'' ''USDC'' 1 (- 50)]"
    unfolding negative_rows_def by (rule example_filters(1))
  have n2: "filter (\<lambda>r. formatDate (PositionRow.date r) = ''2025-12-31'') negative_rows
      = [example_row ''2025-12-31'' ''USDC'' 1 100]"
    unfolding negative_rows_def by (rule example_filters(2))
  have same: "symbol (example_row ''2025-09-30'' ''USDC'' b u)
      = symbol (example_row ''2025-12-31'' ''USDC'' b' u')" for b u b' u'
    by (simp add: example_row_fields)
  have rounding: "formatComparisonTable rounding_rows ''2025-09-30'' ''2025-12-31'' =
     ''### Position Comparison for `GQRz...JvCc`: 2025-09-30 vs 2025-12-31\<newline>\<newline>''
       @ ''| Token | Balance (2025-09-30) | USD (2025-09-30) | Balance (2025-12-31) | USD (2025-12-31) | Change | % Change |\<newline>''
       @ ''|-------|------------------|----------------|------------------|----------------|--------|----------|\<newline>''
       @ ''| USDC | 160.000000 | $160.00 | 183.000000 | $183.00 | $23.00 | 14.37% |\<newline>''
       @ ''\<newline>**Total Portfolio:**\<newline>''
       @ ''- 2025-09-30: $160.00\<newline>''
       @ ''- 2025-12-31: $183.00\<newline>''
       @ ''- Change: $23.00 (14.37%)\<newline>''
       @ data_source"
    unfolding comparison_single[OF ne(1) r1 r2 same] hd example_row_fields shortAddr_example
      rounding_cells separator_dashes
    by simp
  have negative: "formatComparisonTable negative_rows ''2025-09-30'' ''2025-12-31'' =
     ''### Position Comparison for `GQRz...JvCc`: 2025-09-30 vs 2025-12-31\<newline>\<newline>''
       @ ''| Token | Balance (2025-09-30) | USD (2025-09-30) | Balance (2025-12-31) | USD (2025-12-31) | Change | % Change |\<newline>''
       @ ''|-------|------------------|----------------|------------------|----------------|--------|----------|\<newline>''
       @ ''| USDC | 1.000000 | $-50.00 | 1.000000 | $100.00 | $150.00 | N/A |\<newline>''
       @ ''\<newline>**Total Portfolio:**\<newline>''
       @ ''- 2025-09-30: $-50.00\<newline>''
       @ ''- 2025-12-31: $100.00\<newline>''
       @ ''- Change: $150.00 (N/A)\<newline>''
       @ data_source"
    unfolding comparison_single[OF ne(2) n1 n2 same] hd example_row_fields shortAddr_example
      zero_cells duplicate_cells negative_cells separator_dashes
    by simp
  have exact: "(183 - 160) / 160 * 100 = (14.375::real)"
    by simp
  have exact_text: "fixed_notation 2 ((183 - 160) / 160 * 100) = ''14.38''"
    "fixed_notation 2 ((100 - (- 50)) / (- 50) * 100) = ''-300.00''"
    by (simp_all add: fixed_notation_def Let_def decimal_small decimal_step digit_char_def)
  show ?thesis
    by (intro conjI rounding exact exact_text negative)
qed

end
